theory Spec2Isabelle
  imports Complex_Main
begin

section \<open>JavaScript strings and the runtime services the oracles use\<close>

text \<open>
  A question is a JavaScript string; it is modelled as a HOL \<open>string\<close>, a list of
  code units below 256 (the Latin-1 range of UTF-16). \<open>None\<close> of an option type
  stands for JavaScript's \<open>null\<close> and \<open>undefined\<close> alike. Counters are
  natural numbers and confidences are reals: the doubles of the source hold the
  constants 0, 0.5, 0.75, 0.8, 0.85 and small counts, which is all the code computes with.
\<close>

definition digit :: "char \<Rightarrow> bool" where
  \<comment> \<open>the class \<open>\d\<close>\<close>
  "digit c = (c \<in> set ''0123456789'')"

definition upperAZ :: "char \<Rightarrow> bool" where
  \<comment> \<open>the class \<open>[A-Z]\<close>\<close>
  "upperAZ c = (c \<in> set ''ABCDEFGHIJKLMNOPQRSTUVWXYZ'')"

definition loweraz :: "char \<Rightarrow> bool" where
  \<comment> \<open>the class \<open>[a-z]\<close>\<close>
  "loweraz c = (c \<in> set ''abcdefghijklmnopqrstuvwxyz'')"

definition alnum :: "char \<Rightarrow> bool" where
  \<comment> \<open>the class \<open>[a-z0-9]\<close> under the flag \<open>i\<close>\<close>
  "alnum c = (loweraz c \<or> upperAZ c \<or> digit c)"

definition wordc :: "char \<Rightarrow> bool" where
  \<comment> \<open>the class \<open>\w\<close>, which is also \<open>[a-zA-Z0-9_]\<close>\<close>
  "wordc c = (alnum c \<or> c = CHR ''_'')"

definition space :: "char \<Rightarrow> bool" where
  \<comment> \<open>the class \<open>\s\<close> below 256: TAB, LF, VT, FF, CR, SP, NBSP\<close>
  "space c = (c \<in> set [CHR 0x09, CHR 0x0A, CHR 0x0B, CHR 0x0C, CHR 0x0D, CHR '' '', CHR 0xA0])"

definition toLowerChar :: "char \<Rightarrow> char" where
  \<comment> \<open>\<open>String.prototype.toLowerCase\<close> on one code unit: A-Z and the Latin-1 capitals
      (0xC0-0xDE but 0xD7) gain 0x20, which is bit 5\<close>
  "toLowerChar c =
     (let n = (of_char c :: nat) in
      if (65 \<le> n \<and> n \<le> 90) \<or> (192 \<le> n \<and> n \<le> 222 \<and> n \<noteq> 215)
      then (case c of Char b0 b1 b2 b3 b4 b5 b6 b7 \<Rightarrow> Char b0 b1 b2 b3 b4 True b6 b7)
      else c)"

definition toLowerCase :: "string \<Rightarrow> string" where
  "toLowerCase s = map toLowerChar s"

definition foldAZ :: "char \<Rightarrow> char" where
  \<comment> \<open>case folding of a regular expression under the flag \<open>i\<close>: only A-Z and a-z are
      identified with each other (a code unit above 127 never folds onto an ASCII letter)\<close>
  "foldAZ c = (if upperAZ c then toLowerChar c else c)"

definition ci_prefix :: "string \<Rightarrow> string \<Rightarrow> bool" where
  \<comment> \<open>the lower-case literal \<open>lit\<close> matches at the start of \<open>s\<close>, ignoring case\<close>
  "ci_prefix lit s = (length lit \<le> length s \<and> map foldAZ (take (length lit) s) = lit)"

definition trim :: "string \<Rightarrow> string" where
  "trim s = rev (dropWhile space (rev (dropWhile space s)))"

fun includes_str :: "string \<Rightarrow> string \<Rightarrow> bool" where
  \<comment> \<open>\<open>s.includes(needle)\<close>\<close>
  "includes_str [] needle = (needle = [])"
| "includes_str (c # cs) needle = (take (length needle) (c # cs) = needle \<or> includes_str cs needle)"

definition truthy :: "string option \<Rightarrow> bool" where
  \<comment> \<open>a string-or-null value in a condition: null, undefined and \<open>''\<close> are falsy\<close>
  "truthy v = (case v of None \<Rightarrow> False | Some s \<Rightarrow> s \<noteq> [])"

fun search :: "(string \<Rightarrow> 'a option) \<Rightarrow> string \<Rightarrow> 'a option" where
  \<comment> \<open>\<open>String.prototype.match\<close> without the flag \<open>g\<close>: the match at the leftmost
      position where the pattern \<open>m\<close> matches\<close>
  "search m [] = m []"
| "search m (c # cs) = (case m (c # cs) of Some r \<Rightarrow> Some r | None \<Rightarrow> search m cs)"

fun search_b :: "(char option \<Rightarrow> string \<Rightarrow> 'a option) \<Rightarrow> char option \<Rightarrow> string \<Rightarrow> 'a option" where
  \<comment> \<open>the same for a pattern that starts with \<open>\b\<close> and so reads the code unit before\<close>
  "search_b m prev [] = m prev []"
| "search_b m prev (c # cs) =
     (case m prev (c # cs) of Some r \<Rightarrow> Some r | None \<Rightarrow> search_b m (Some c) cs)"

fun first_some :: "('a \<Rightarrow> 'b option) \<Rightarrow> 'a list \<Rightarrow> 'b option" where
  \<comment> \<open>backtracking: the alternatives in the order the matcher tries them\<close>
  "first_some f [] = None"
| "first_some f (x # xs) = (case f x of Some r \<Rightarrow> Some r | None \<Rightarrow> first_some f xs)"

primrec downfrom :: "nat \<Rightarrow> nat list" where
  \<comment> \<open>\<open>[n, n - 1, ..., 1]\<close>: the lengths a greedy \<open>+\<close> gives back, longest first\<close>
  "downfrom 0 = []"
| "downfrom (Suc n) = Suc n # downfrom n"

definition non_word_before :: "char option \<Rightarrow> bool" where
  \<comment> \<open>\<open>\b\<close> in front of a word character: the code unit before is absent or not \<open>\w\<close>\<close>
  "non_word_before prev = (case prev of None \<Rightarrow> True | Some p \<Rightarrow> \<not> wordc p)"

definition non_word_next :: "string \<Rightarrow> bool" where
  \<comment> \<open>\<open>\b\<close> behind a word character: the rest is empty or starts with a non-\<open>\w\<close>\<close>
  "non_word_next s = (case s of [] \<Rightarrow> True | c # _ \<Rightarrow> \<not> wordc c)"

subsection \<open>Dates\<close>

text \<open>
  What \<open>new Date()\<close> gives at one instant. \<open>localTime\<close> is the local time value in
  milliseconds, from which \<open>getHours\<close> is computed as ECMAScript's
  \<open>HourFromTime(LocalTime(t))\<close>; the renderings are kept as the runtime returns them.
\<close>

record js_date =
  localTime :: int
  toDateString :: string
  toISOString :: string
  yesterdayISOString :: string
    \<comment> \<open>\<open>d.setDate(d.getDate() - 1); d.toISOString()\<close>\<close>

definition getHours :: "js_date \<Rightarrow> nat" where
  "getHours d = nat (localTime d div 3600000 mod 24)"

definition split_T_0 :: "string \<Rightarrow> string" where
  \<comment> \<open>\<open>s.split('T')[0]\<close>\<close>
  "split_T_0 s = takeWhile (\<lambda>c. c \<noteq> CHR ''T'') s"

definition digit_val :: "char \<Rightarrow> nat" where
  "digit_val c = length (takeWhile (\<lambda>d. d \<noteq> c) ''0123456789'')"

definition digits_val :: "string \<Rightarrow> nat" where
  "digits_val s = foldl (\<lambda>n c. 10 * n + digit_val c) 0 s"

definition iso_date_at :: "string \<Rightarrow> bool" where
  \<comment> \<open>\<open>\d{4}-\d{2}-\d{2}\<close> at the start of the string\<close>
  "iso_date_at s =
     (10 \<le> length s \<and> list_all digit (take 4 s) \<and> s ! 4 = CHR ''-'' \<and>
      list_all digit (take 2 (drop 5 s)) \<and> s ! 7 = CHR ''-'' \<and>
      list_all digit (take 2 (drop 8 s)))"

definition days_in_month :: "nat \<Rightarrow> nat \<Rightarrow> nat" where
  "days_in_month y m =
     (if m = 2 then (if y mod 4 = 0 \<and> (y mod 100 \<noteq> 0 \<or> y mod 400 = 0) then 29 else 28)
      else if m \<in> {4, 6, 9, 11} then 30 else 31)"

definition valid_iso_date :: "string \<Rightarrow> bool" where
  \<comment> \<open>a string that is exactly a calendar date \<open>YYYY-MM-DD\<close>\<close>
  "valid_iso_date s =
     (length s = 10 \<and> iso_date_at s \<and>
      (let y = digits_val (take 4 s); m = digits_val (take 2 (drop 5 s));
           d = digits_val (take 2 (drop 8 s))
       in 1 \<le> m \<and> m \<le> 12 \<and> 1 \<le> d \<and> d \<le> days_in_month y m))"

definition newDate_iso :: "(string \<Rightarrow> string option) \<Rightarrow> string \<Rightarrow> string option" where
  \<comment> \<open>\<open>new Date(s)\<close> followed by \<open>isNaN\<close> and \<open>toISOString().split('T')[0]\<close>: None is
      an invalid date. ECMAScript fixes the date-only form \<open>YYYY-MM-DD\<close> (midnight UTC,
      so the rendering is the string itself); every other string is parsed by the
      engine's own heuristics \<open>engine\<close>.\<close>
  "newDate_iso engine s = (if valid_iso_date s then Some s else engine s)"

section \<open>The sports question parser\<close>

record sports_query =
  team :: "string option"
  opponent :: "string option"
  date :: string
  originalQuestion :: string

definition date_pattern1 :: "string \<Rightarrow> string option" where
  \<comment> \<open>\<open>/(\d{4}-\d{2}-\d{2})/\<close> at one position\<close>
  "date_pattern1 s = (if iso_date_at s then Some (take 10 s) else None)"

definition date_pattern2 :: "string \<Rightarrow> string option" where
  \<comment> \<open>\<open>/on (\w+ \d+,? \d{4})/i\<close> at one position. Each greedy run is followed by a
      code unit outside its class, so giving back never helps and the runs are maximal.\<close>
  "date_pattern2 s =
     (if ci_prefix ''on '' s then
        (let r0 = drop 3 s; w = takeWhile wordc r0; r1 = dropWhile wordc r0 in
         if w = [] \<or> take 1 r1 \<noteq> '' '' then None
         else
           (let r2 = drop 1 r1; d = takeWhile digit r2; r3 = dropWhile digit r2;
                comma = (if take 1 r3 = '','' then '','' else []);
                r4 = drop (length comma) r3 in
            if d = [] \<or> take 1 r4 \<noteq> '' '' then None
            else
              (let r5 = drop 1 r4 in
               if 4 \<le> length r5 \<and> list_all digit (take 4 r5)
               then Some (w @ '' '' @ d @ comma @ '' '' @ take 4 r5)
               else None)))
      else None)"

definition date_pattern3 :: "string \<Rightarrow> string option" where
  \<comment> \<open>\<open>/(yesterday|today|last night)/i\<close> at one position; the capture keeps the
      question's own letter case\<close>
  "date_pattern3 s =
     first_some (\<lambda>lit. if ci_prefix lit s then Some (take (length lit) s) else None)
       [''yesterday'', ''today'', ''last night'']"

definition datePatterns :: "(string \<Rightarrow> string option) list" where
  "datePatterns = [search date_pattern1, search date_pattern2, search date_pattern3]"

definition resolve_date :: "(string \<Rightarrow> string option) \<Rightarrow> js_date \<Rightarrow> string \<Rightarrow> string" where
  \<comment> \<open>the body of the loop over \<open>datePatterns\<close> once a pattern has matched with capture \<open>m1\<close>\<close>
  "resolve_date engine now m1 =
     (if m1 = ''yesterday'' \<or> m1 = ''last night'' then split_T_0 (yesterdayISOString now)
      else if m1 = ''today'' then split_T_0 (toISOString now)
      else (case newDate_iso engine m1 of Some day \<Rightarrow> day | None \<Rightarrow> m1))"

definition extract_date :: "(string \<Rightarrow> string option) \<Rightarrow> js_date \<Rightarrow> string \<Rightarrow> string option" where
  \<comment> \<open>the loop: the first pattern that matches decides, then \<open>break\<close>\<close>
  "extract_date engine now question =
     map_option (resolve_date engine now) (first_some (\<lambda>p. p question) datePatterns)"

function team_tail :: "string \<Rightarrow> nat option" where
  \<comment> \<open>\<open>(?:\s+[A-Z][a-z]+)*\b\<close> behind a lower-case letter: how many code units it takes.
      The star is greedy: one more word is tried first, and when everything behind it
      fails the matcher falls back to ending here.\<close>
  "team_tail s =
     (let sp = takeWhile space s; r1 = dropWhile space s;
          lw = takeWhile loweraz (drop 1 r1); r2 = dropWhile loweraz (drop 1 r1);
          here = (if non_word_next s then Some 0 else None)
      in if sp \<noteq> [] \<and> r1 \<noteq> [] \<and> upperAZ (hd r1) \<and> lw \<noteq> []
         then (case team_tail r2 of
                 Some k \<Rightarrow> Some (length sp + 1 + length lw + k)
               | None \<Rightarrow> here)
         else here)"
  by pat_completeness auto

lemma team_tail_shrinks:
  assumes "takeWhile space s \<noteq> []"
  shows "length (dropWhile loweraz (drop (Suc 0) (dropWhile space s))) < length s"
proof -
  from assms obtain c cs where s: "s = c # cs" and c: "space c"
    by (cases s) (auto split: if_splits)
  have "length (dropWhile loweraz (drop (Suc 0) (dropWhile space s))) \<le> length (dropWhile space s)"
    by (rule order_trans [OF length_dropWhile_le]) simp
  also have "\<dots> = length (dropWhile space cs)" using s c by simp
  also have "\<dots> \<le> length cs" by (rule length_dropWhile_le)
  finally show ?thesis using s by simp
qed

termination team_tail
  by (relation "measure length") (simp_all add: team_tail_shrinks)

declare team_tail.simps [simp del]

definition team_at :: "char option \<Rightarrow> string \<Rightarrow> nat option" where
  \<comment> \<open>\<open>/\b([A-Z][a-z]+(?:\s+[A-Z][a-z]+)*)\b/\<close> at one position: the length of the match.
      A shorter first word would be followed by a lower-case letter, where neither
      \<open>\s\<close> nor \<open>\b\<close> matches, so the first word is the maximal run.\<close>
  "team_at prev s =
     (case s of
        [] \<Rightarrow> None
      | u # r \<Rightarrow>
          (let lw = takeWhile loweraz r in
           if non_word_before prev \<and> upperAZ u \<and> lw \<noteq> []
           then map_option (\<lambda>k. 1 + length lw + k) (team_tail (dropWhile loweraz r))
           else None))"

fun exec_all :: "char option \<Rightarrow> nat \<Rightarrow> string \<Rightarrow> string list" where
  \<comment> \<open>the loop \<open>while ((teamMatch = teamPattern.exec(question)) !== null)\<close> of a
      pattern with the flag \<open>g\<close>: every match, left to right, each search starting
      where the match before ended (\<open>skip\<close> code units of it are still ahead)\<close>
  "exec_all prev skip [] = []"
| "exec_all prev skip (c # cs) =
     (if 0 < skip then exec_all (Some c) (skip - 1) cs
      else (case team_at prev (c # cs) of
              Some k \<Rightarrow> take k (c # cs) # exec_all (Some c) (k - 1) cs
            | None \<Rightarrow> exec_all (Some c) 0 cs))"

definition non_team_words :: "string list" where
  "non_team_words = [''Who'', ''What'', ''Did'', ''The'', ''How'', ''When'']"

definition extract_teams :: "string \<Rightarrow> string list" where
  "extract_teams question =
     filter (\<lambda>t. t \<notin> set non_team_words) (exec_all None 0 question)"

definition sports_parseQuestion ::
  "(string \<Rightarrow> string option) \<Rightarrow> js_date \<Rightarrow> string \<Rightarrow> sports_query" where
  "sports_parseQuestion engine now question =
     (let date0 = extract_date engine now question;
          teams = extract_teams question
      in \<lparr> team = (case teams of [] \<Rightarrow> None | t # _ \<Rightarrow> Some t),
           opponent = (case teams of _ # t # _ \<Rightarrow> Some t | _ \<Rightarrow> None),
           date = (case date0 of
                     Some d \<Rightarrow> if d \<noteq> [] then d else split_T_0 (toISOString now)
                   | None \<Rightarrow> split_T_0 (toISOString now)),
           originalQuestion = question \<rparr>)"

definition TEAM_ALIASES :: "(string \<times> string) list" where
  "TEAM_ALIASES =
     [(''celtics'', ''Boston Celtics''), (''lakers'', ''Los Angeles Lakers''),
      (''warriors'', ''Golden State Warriors''), (''bulls'', ''Chicago Bulls''),
      (''heat'', ''Miami Heat''), (''nets'', ''Brooklyn Nets''),
      (''knicks'', ''New York Knicks''), (''sixers'', ''Philadelphia 76ers''),
      (''76ers'', ''Philadelphia 76ers''), (''bucks'', ''Milwaukee Bucks''),
      (''suns'', ''Phoenix Suns''), (''mavs'', ''Dallas Mavericks''),
      (''mavericks'', ''Dallas Mavericks''), (''nuggets'', ''Denver Nuggets''),
      (''clippers'', ''Los Angeles Clippers''), (''rockets'', ''Houston Rockets''),
      (''spurs'', ''San Antonio Spurs''),
      (''chiefs'', ''Kansas City Chiefs''), (''eagles'', ''Philadelphia Eagles''),
      (''cowboys'', ''Dallas Cowboys''), (''packers'', ''Green Bay Packers''),
      (''niners'', ''San Francisco 49ers''), (''49ers'', ''San Francisco 49ers''),
      (''bills'', ''Buffalo Bills''), (''ravens'', ''Baltimore Ravens''),
      (''bengals'', ''Cincinnati Bengals''),
      (''yankees'', ''New York Yankees''), (''dodgers'', ''Los Angeles Dodgers''),
      (''red sox'', ''Boston Red Sox''), (''cubs'', ''Chicago Cubs''),
      (''bruins'', ''Boston Bruins''), (''rangers'', ''New York Rangers''),
      (''maple leafs'', ''Toronto Maple Leafs''), (''canadiens'', ''Montreal Canadiens'')]"

definition normalizeTeamName :: "string \<Rightarrow> string" where
  \<comment> \<open>on a non-empty name (the callers test \<open>if (parsed.team)\<close> first; the function
      itself returns a falsy name as it is). The table's own keys only: the keys an
      object inherits (\<open>constructor\<close>, \<open>__proto__\<close>) are left out.\<close>
  "normalizeTeamName teamName =
     (if teamName = [] then teamName
      else (case map_of TEAM_ALIASES (trim (toLowerCase teamName)) of
              Some canonical \<Rightarrow> canonical
            | None \<Rightarrow> teamName))"

section \<open>The reddit question parser\<close>

datatype query_type = HOT | NEW | TOP | POST | SEARCH
  \<comment> \<open>\<open>QUERY_TYPES\<close>: 'hot', 'new', 'top', 'post', 'search'\<close>

record reddit_query =
  qtype :: "query_type option"
  subreddit :: "string option"
  postId :: "string option"
  keyword :: "string option"
  limit :: nat
  question :: string
    \<comment> \<open>the field \<open>originalQuestion\<close>\<close>

definition subreddit_pattern1 :: "string \<Rightarrow> string option" where
  \<comment> \<open>\<open>/r\/([a-zA-Z0-9_]+)/i\<close> at one position\<close>
  "subreddit_pattern1 s =
     (let w = takeWhile wordc (drop 2 s) in
      if ci_prefix ''r/'' s \<and> w \<noteq> [] then Some w else None)"

definition subreddit_pattern2 :: "string \<Rightarrow> string option" where
  \<comment> \<open>\<open>/(?:on|from|in)\s+([a-zA-Z0-9_]+)\s+(?:subreddit)?/i\<close> at one position. The
      runs are maximal for the reason given at \<open>date_pattern2\<close>; the optional last group
      always succeeds.\<close>
  "subreddit_pattern2 s =
     first_some
       (\<lambda>kw. if ci_prefix kw s then
               (let r = drop (length kw) s; r1 = dropWhile space r;
                    w = takeWhile wordc r1; r2 = dropWhile wordc r1 in
                if takeWhile space r \<noteq> [] \<and> w \<noteq> [] \<and> takeWhile space r2 \<noteq> []
                then Some w else None)
             else None)
       [''on'', ''from'', ''in'']"

definition subreddit_pattern3 :: "string \<Rightarrow> string option" where
  \<comment> \<open>\<open>/subreddit\s+([a-zA-Z0-9_]+)/i\<close> at one position\<close>
  "subreddit_pattern3 s =
     (let r = drop 9 s; w = takeWhile wordc (dropWhile space r) in
      if ci_prefix ''subreddit'' s \<and> takeWhile space r \<noteq> [] \<and> w \<noteq> [] then Some w else None)"

definition subredditPatterns :: "(string \<Rightarrow> string option) list" where
  "subredditPatterns =
     [search subreddit_pattern1, search subreddit_pattern2, search subreddit_pattern3]"

definition keyword_capture :: "string \<Rightarrow> string option" where
  \<comment> \<open>\<open>([^"'?]+)["']?\<close>: the capture is the maximal run, the quote behind it is optional\<close>
  "keyword_capture s =
     (let k = takeWhile (\<lambda>c. c \<notin> set [CHR 0x22, CHR 0x27, CHR ''?'']) s in
      if k = [] then None else Some k)"

definition quoted_capture :: "string \<Rightarrow> string option" where
  \<comment> \<open>\<open>["']?([^"'?]+)["']?\<close>: with the opening quote first, then without\<close>
  "quoted_capture s =
     (if take 1 s = [CHR 0x22] \<or> take 1 s = [CHR 0x27]
      then (case keyword_capture (drop 1 s) of Some k \<Rightarrow> Some k | None \<Rightarrow> keyword_capture s)
      else keyword_capture s)"

definition for_capture :: "string \<Rightarrow> string option" where
  \<comment> \<open>\<open>(?:for\s+)?["']?([^"'?]+)["']?\<close>: with the group first, its \<open>\s+\<close> giving back
      spaces longest first, then without the group\<close>
  "for_capture s =
     (case (if ci_prefix ''for'' s
            then first_some (\<lambda>j. quoted_capture (drop j (drop 3 s)))
                   (downfrom (length (takeWhile space (drop 3 s))))
            else None) of
        Some k \<Rightarrow> Some k
      | None \<Rightarrow> quoted_capture s)"

definition search_pattern :: "string \<Rightarrow> string option" where
  \<comment> \<open>\<open>/(?:search|find|looking for)\s+(?:for\s+)?["']?([^"'?]+)["']?/i\<close> at one position\<close>
  "search_pattern s =
     first_some
       (\<lambda>kw. if ci_prefix kw s
             then first_some (\<lambda>j. for_capture (drop j (drop (length kw) s)))
                    (downfrom (length (takeWhile space (drop (length kw) s))))
             else None)
       [''search'', ''find'', ''looking for'']"

definition six_alnum :: "string \<Rightarrow> unit option" where
  \<comment> \<open>\<open>/[a-z0-9]{6,}/i\<close> at one position\<close>
  "six_alnum s = (if 6 \<le> length (takeWhile alnum s) then Some () else None)"

definition url_pattern :: "string \<Rightarrow> string option" where
  \<comment> \<open>\<open>/comments\/([a-z0-9]+)/i\<close> at one position\<close>
  "url_pattern s =
     (let w = takeWhile alnum (drop 9 s) in
      if ci_prefix ''comments/'' s \<and> w \<noteq> [] then Some w else None)"

definition id_pattern :: "char option \<Rightarrow> string \<Rightarrow> string option" where
  \<comment> \<open>\<open>/\b([a-z0-9]{6,8})\b/i\<close> at one position: eight code units first, then seven, then six\<close>
  "id_pattern prev s =
     (if non_word_before prev
      then first_some
             (\<lambda>n. if n \<le> length s \<and> list_all alnum (take n s) \<and> non_word_next (drop n s)
                  then Some (take n s) else None)
             [8, 7, 6]
      else None)"

definition limit_pattern :: "string \<Rightarrow> string option" where
  \<comment> \<open>\<open>/(\d+)\s+(?:posts?|results?|items?)/i\<close> at one position\<close>
  "limit_pattern s =
     (let d = takeWhile digit s; r = dropWhile digit s; r1 = dropWhile space r in
      if d \<noteq> [] \<and> takeWhile space r \<noteq> [] \<and>
         (ci_prefix ''post'' r1 \<or> ci_prefix ''result'' r1 \<or> ci_prefix ''item'' r1)
      then Some d else None)"

definition detect_type :: "string \<Rightarrow> query_type \<times> string option \<times> string option" where
  \<comment> \<open>the chain \<open>if (lowerQ.includes('hot') ...) ... else ...\<close>: the type, the keyword
      and the post id it assigns\<close>
  "detect_type q =
     (let lowerQ = toLowerCase q in
      if includes_str lowerQ ''hot'' \<or> includes_str lowerQ ''trending'' \<or>
         includes_str lowerQ ''popular'' then (HOT, None, None)
      else if includes_str lowerQ ''new'' \<or> includes_str lowerQ ''latest'' \<or>
         includes_str lowerQ ''recent'' then (NEW, None, None)
      else if includes_str lowerQ ''top'' \<or> includes_str lowerQ ''best'' then (TOP, None, None)
      else if includes_str lowerQ ''search'' \<or> includes_str lowerQ ''find'' \<or>
         includes_str lowerQ ''looking for''
      then (SEARCH, map_option trim (search search_pattern q), None)
      else if includes_str lowerQ ''post'' \<and> search six_alnum q \<noteq> None
      then (POST, None,
            (case search url_pattern q of
               Some u \<Rightarrow> Some u
             | None \<Rightarrow> search_b id_pattern None q))
      else (HOT, None, None))"

definition reddit_parseQuestion :: "string \<Rightarrow> reddit_query" where
  "reddit_parseQuestion q =
     (case detect_type q of
        (t, kw, pid) \<Rightarrow>
          \<lparr> qtype = Some t,
            subreddit = first_some (\<lambda>p. p q) subredditPatterns,
            postId = pid,
            keyword = kw,
            limit = (case search limit_pattern q of
                       Some d \<Rightarrow> min (digits_val d) 100
                     | None \<Rightarrow> 10),
            question = q \<rparr>)"

section \<open>Results, outbound calls and the stats store\<close>

record payment =
  creditsUsed :: nat
  txHash :: "string option"
  pay_timestamp :: "string option"
  pay_error :: "string option"
  pay_message :: "string option"

text \<open>The fields the results of both oracles share; an absent field is None, False or [].\<close>

record oracle_result =
  confidence :: real
  error :: "string option"
  message :: "string option"
  safetyTriggered :: bool
  suggestion :: "string option"
  sources :: "string list"
  timestamp :: string
  payment :: "payment option"

text \<open>
  An outbound call is recorded as the configuration \<open>axios.get\<close> receives; the URL is
  kept as its template and arguments. \<open>Sleep\<close> is an awaited \<open>setTimeout\<close>.
\<close>

datatype endpoint =
    SearchTeams "string option"
      \<comment> \<open>\<open>${SPORTSDB_BASE}/searchteams.php?t=${encodeURIComponent(teamName)}\<close>\<close>
  | EventsLast "string option"
      \<comment> \<open>\<open>${SPORTSDB_BASE}/eventslast.php?id=${teamId}\<close>\<close>
  | Listing string "query_type option" nat
      \<comment> \<open>\<open>https://www.reddit.com/r/${subreddit}/${sort}.json?limit=${limit}\<close>\<close>
  | Comments string string
      \<comment> \<open>\<open>https://www.reddit.com/r/${subreddit}/comments/${postId}.json\<close>\<close>
  | SearchListing string string nat
      \<comment> \<open>\<open>https://www.reddit.com/r/${subreddit}/search.json?q=...&restrict_sr=on&limit=${limit}\<close>\<close>

record request =
  url :: endpoint
  userAgent :: "string option"
  timeout :: "nat option"

datatype event = Sleep nat | Get request

definition requests :: "event list \<Rightarrow> request list" where
  \<comment> \<open>the outbound calls among the events, in order\<close>
  "requests evs = concat (map (\<lambda>e. case e of Get r \<Rightarrow> [r] | Sleep _ \<Rightarrow> []) evs)"

definition sleeps :: "event list \<Rightarrow> nat list" where
  \<comment> \<open>the delays among the events, in order\<close>
  "sleeps evs = concat (map (\<lambda>e. case e of Sleep d \<Rightarrow> [d] | Get _ \<Rightarrow> []) evs)"

text \<open>
  \<open>askOracle\<close> is an \<open>async\<close> function: it runs without interruption up to its first
  \<open>await\<close> and again from the provider's answer to its \<open>return\<close>, and other calls may
  run in between. A call that has not returned by its first \<open>await\<close> is in flight.
\<close>

datatype ('r, 'f) progress = Returned 'r | Awaiting 'f

datatype 'a reply =
    Rejected "nat option" string
      \<comment> \<open>the awaited call, or the reading of its body inside the \<open>try\<close>, throws:
          \<open>error.response?.status\<close> and \<open>error.message\<close>\<close>
  | Resolved 'a

datatype safety = Safe | Unsafe string string
  \<comment> \<open>\<open>{ safe: true }\<close> or \<open>{ safe: false, reason, message }\<close>\<close>

definition is_safe :: "safety \<Rightarrow> bool" where
  "is_safe c = (case c of Safe \<Rightarrow> True | Unsafe _ _ \<Rightarrow> False)"

definition reason :: "safety \<Rightarrow> string option" where
  "reason c = (case c of Safe \<Rightarrow> None | Unsafe r _ \<Rightarrow> Some r)"

text \<open>
  The stats document of one domain, as \<open>saveStats\<close> writes it and \<open>loadStats\<close> reads
  it back. A bucket of the histogram is a JSON number or \<open>null\<close>. The file itself is
  \<open>'s option\<close>: None is a missing or unreadable file.
\<close>

record 'e stats =
  totalQueries :: nat
  todayQueries :: nat
  successCount :: nat
  errorCount :: nat
  hourlyData :: "nat option list"
  recentQueries :: "'e list"
  lastReset :: string

definition saveStats :: "bool \<Rightarrow> 's option \<Rightarrow> 's \<Rightarrow> 's option" where
  \<comment> \<open>the write is inside \<open>try { ... } catch (e) { /* ignore */ }\<close>: when it fails
      (\<open>writable\<close> is False) the file stays as it was\<close>
  "saveStats writable file st = (if writable then Some st else file)"

definition increment :: "nat option list \<Rightarrow> nat \<Rightarrow> nat option list" where
  \<comment> \<open>\<open>stats.hourlyData[h]++\<close> followed by the JSON round trip: a number gains one,
      \<open>null\<close> counts as 0, and past the end the array grows and the new bucket holds
      NaN, which the file stores as \<open>null\<close> like the holes before it\<close>
  "increment xs h =
     (if h < length xs
      then xs[h := Some (case xs ! h of None \<Rightarrow> 1 | Some n \<Rightarrow> n + 1)]
      else xs @ replicate (h - length xs) None @ [None])"

section \<open>The sports oracle\<close>

definition sports_maxConsecutiveErrors :: nat where
  "sports_maxConsecutiveErrors = 5"

definition sports_minConfidenceFloor :: real where
  "sports_minConfidenceFloor = 0.5"

definition sports_maxQueriesPerMinute :: nat where
  \<comment> \<open>declared in \<open>SAFETY_LIMITS\<close> with the comment "Rate limit (TheSportsDB allows
      100/min)"; no function of the module reads it\<close>
  "sports_maxQueriesPerMinute = 60"

definition sports_maxQueriesPerDay :: nat where
  "sports_maxQueriesPerDay = 1000"

record game =
  g_homeTeam :: "string option"
  g_awayTeam :: "string option"
  g_homeScore :: "int option"
  g_awayScore :: "int option"
  g_winner :: "string option"
  finalScore :: "int option \<times> int option"
    \<comment> \<open>rendered \<open>`${homeScore}-${awayScore}`\<close>\<close>

record sports_result = oracle_result +
  verified :: bool
  result :: "game option"
  res_league :: "string option"
  res_date :: "string option"
  parsed :: "sports_query option"
  query :: "sports_query option"
  sourcesAgreed :: "nat option"
  sourcesQueried :: "nat option"

record sports_entry =
  e_timestamp :: string
  e_query :: "sports_query option"
  e_verified :: bool
  e_confidence :: real
  e_winner :: "string option"
  e_error :: "string option"

record sports_stats = "sports_entry stats" +
  confidenceSum :: real

definition sports_loadStats :: "js_date \<Rightarrow> sports_stats option \<Rightarrow> sports_stats" where
  "sports_loadStats now file =
     (case file of
        Some st \<Rightarrow> st
      | None \<Rightarrow>
          \<lparr> totalQueries = 0, todayQueries = 0, successCount = 0, errorCount = 0,
            hourlyData = replicate 24 (Some 0), recentQueries = [],
            lastReset = toDateString now, confidenceSum = 0 \<rparr>)"

definition sports_checkSafetyLimits :: "js_date \<Rightarrow> sports_stats option \<Rightarrow> safety" where
  "sports_checkSafetyLimits now file =
     (let stats = sports_loadStats now file;
          recent = take sports_maxConsecutiveErrors (recentQueries stats);
          consecutiveErrors = length (filter (\<lambda>q. \<not> e_verified q) recent)
      in if sports_maxConsecutiveErrors \<le> length recent \<and>
            consecutiveErrors = sports_maxConsecutiveErrors
         then Unsafe ''circuit_breaker_tripped''
                ''5 consecutive errors detected. Operations paused.''
         else if sports_maxQueriesPerDay \<le> todayQueries stats
         then Unsafe ''daily_limit_reached'' ''Daily query limit (1000) reached.''
         else Safe)"

definition applyConfidenceFloor :: "real \<Rightarrow> real" where
  "applyConfidenceFloor c =
     (if 0 < c \<and> c < sports_minConfidenceFloor then sports_minConfidenceFloor else c)"

definition sports_logQuery ::
  "js_date \<Rightarrow> bool \<Rightarrow> sports_stats option \<Rightarrow> sports_result \<Rightarrow> sports_stats option" where
  \<comment> \<open>the \<open>new Date()\<close> readings of one call fall into the one instant \<open>now\<close>\<close>
  "sports_logQuery now writable file r =
     (let stats = sports_loadStats now file;
          stats1 = (if lastReset stats \<noteq> toDateString now
                    then stats\<lparr> todayQueries := 0, hourlyData := replicate 24 (Some 0),
                                lastReset := toDateString now \<rparr>
                    else stats);
          stats2 = stats1\<lparr> totalQueries := totalQueries stats1 + 1,
                            todayQueries := todayQueries stats1 + 1,
                            hourlyData := increment (hourlyData stats1) (getHours now) \<rparr>;
          stats3 = (if verified r
                    then stats2\<lparr> successCount := successCount stats2 + 1,
                                 confidenceSum := confidenceSum stats2 + confidence r \<rparr>
                    else stats2\<lparr> errorCount := errorCount stats2 + 1 \<rparr>);
          entry = \<lparr> e_timestamp = toISOString now, e_query = query r,
                    e_verified = verified r, e_confidence = confidence r,
                    e_winner = (case result r of None \<Rightarrow> None | Some g \<Rightarrow> g_winner g),
                    e_error = error r \<rparr>
      in saveStats writable file
           (stats3\<lparr> recentQueries := take 50 (entry # recentQueries stats3) \<rparr>))"

subsection \<open>The source adapter\<close>

record team_row =
  idTeam :: "string option"

record event_row =
  dateEvent :: "string option"
  intHomeScore :: "string option"
  intAwayScore :: "string option"
  strHomeTeam :: "string option"
  strAwayTeam :: "string option"
  strLeague :: "string option"
  idEvent :: "string option"

text \<open>
  TheSportsDB as the adapter sees it: what each of the two calls answers. The body of
  \<open>searchteams.php\<close> is its field \<open>teams\<close>, that of \<open>eventslast.php\<close> its field
  \<open>results\<close>; None is \<open>null\<close> or a missing field.
\<close>

record sportsdb =
  searchteams :: "string option \<Rightarrow> team_row list option reply"
  eventslast :: "string option \<Rightarrow> event_row list option reply"

record sportsdb_result =
  db_error :: "string option"
  homeTeam :: "string option"
  awayTeam :: "string option"
  homeScore :: "int option"
  awayScore :: "int option"
  winner :: "string option"
  db_date :: "string option"
  league :: "string option"
  eventId :: "string option"

definition parseInt10 :: "string option \<Rightarrow> int option" where
  \<comment> \<open>\<open>parseInt(v, 10)\<close>; None is NaN. The value is the exact integer the digits
      denote; the source holds the nearest double, which differs above \<open>2^53\<close>.\<close>
  "parseInt10 v =
     (case v of
        None \<Rightarrow> None
      | Some s \<Rightarrow>
          (let t = dropWhile space s;
               neg = (take 1 t = ''-'');
               u = (if take 1 t = ''-'' \<or> take 1 t = ''+'' then drop 1 t else t);
               ds = takeWhile digit u
           in if ds = [] then None
              else Some (if neg then - int (digits_val ds) else int (digits_val ds))))"

definition js_gt :: "int option \<Rightarrow> int option \<Rightarrow> bool" where
  \<comment> \<open>\<open>a > b\<close> on numbers: False as soon as one of them is NaN\<close>
  "js_gt a b = (case (a, b) of (Some x, Some y) \<Rightarrow> y < x | _ \<Rightarrow> False)"

definition db_failure :: "string \<Rightarrow> sportsdb_result" where
  \<comment> \<open>\<open>{ error: e, source: 'thesportsdb' }\<close>\<close>
  "db_failure e =
     \<lparr> db_error = Some e, homeTeam = None, awayTeam = None, homeScore = None,
       awayScore = None, winner = None, db_date = None, league = None, eventId = None \<rparr>"

definition sports_get :: "endpoint \<Rightarrow> event" where
  \<comment> \<open>\<open>axios.get(url)\<close>: no configuration object, so no header and no timeout\<close>
  "sports_get u = Get \<lparr> url = u, userAgent = None, timeout = None \<rparr>"

definition querySportsDB ::
  "sportsdb \<Rightarrow> string option \<Rightarrow> string \<Rightarrow> sportsdb_result \<times> event list" where
  "querySportsDB db teamName day =
     (case searchteams db teamName of
        Rejected _ m \<Rightarrow> (db_failure m, [sports_get (SearchTeams teamName)])
      | Resolved teams \<Rightarrow>
          (case teams of
             None \<Rightarrow> (db_failure ''team_not_found'', [sports_get (SearchTeams teamName)])
           | Some [] \<Rightarrow> (db_failure ''team_not_found'', [sports_get (SearchTeams teamName)])
           | Some (first_team # _) \<Rightarrow>
               (let teamId = idTeam first_team;
                    calls = [sports_get (SearchTeams teamName), sports_get (EventsLast teamId)]
                in case eventslast db teamId of
                     Rejected _ m \<Rightarrow> (db_failure m, calls)
                   | Resolved None \<Rightarrow> (db_failure ''no_events'', calls)
                   | Resolved (Some results) \<Rightarrow>
                       (case List.find (\<lambda>e. dateEvent e = Some day) results of
                          None \<Rightarrow> (db_failure ''event_not_found_on_date'', calls)
                        | Some ev \<Rightarrow>
                            (let hs = parseInt10 (intHomeScore ev);
                                 as = parseInt10 (intAwayScore ev)
                             in (\<lparr> db_error = None,
                                    homeTeam = strHomeTeam ev, awayTeam = strAwayTeam ev,
                                    homeScore = hs, awayScore = as,
                                    winner = (if js_gt hs as then strHomeTeam ev
                                              else if js_gt as hs then strAwayTeam ev
                                              else Some ''tie''),
                                    db_date = dateEvent ev, league = strLeague ev,
                                    eventId = idEvent ev \<rparr>, calls))))))"

subsection \<open>verifyResult and askOracle\<close>

definition sports_blank :: sports_result where
  \<comment> \<open>an object literal before its fields are written\<close>
  "sports_blank =
     \<lparr> confidence = 0, error = None, message = None, safetyTriggered = False,
       suggestion = None, sources = [], timestamp = [], payment = None,
       verified = False, result = None, res_league = None, res_date = None,
       parsed = None, query = None, sourcesAgreed = None, sourcesQueried = None \<rparr>"

definition opponentMatch :: "sportsdb_result \<Rightarrow> string option \<Rightarrow> bool option" where
  \<comment> \<open>the block \<open>let opponentMatch = true; if (opponent) { ... }\<close>; None is the
      TypeError of \<open>.toLowerCase()\<close> on a team name the event does not carry\<close>
  "opponentMatch r opp =
     (case opp of
        None \<Rightarrow> Some True
      | Some opp \<Rightarrow>
          if opp = [] then Some True
          else (case homeTeam r of
                  None \<Rightarrow> None
                | Some h \<Rightarrow>
                    if includes_str (toLowerCase h) (toLowerCase opp) then Some True
                    else (case awayTeam r of
                            None \<Rightarrow> None
                          | Some a \<Rightarrow> Some (includes_str (toLowerCase a) (toLowerCase opp)))))"

definition type_error :: string where
  \<comment> \<open>the message of the TypeError that \<open>homeTeam.toLowerCase()\<close> throws on a missing
      team name, in the wording of V8 for undefined; for null the wording says \<open>null\<close>\<close>
  "type_error = ''Cannot read properties of undefined (reading 'toLowerCase')''"

definition verifyResult ::
  "sportsdb \<Rightarrow> js_date \<Rightarrow> sports_query \<Rightarrow> (string + sports_result) \<times> event list" where
  \<comment> \<open>\<open>Inl\<close> is a rejected promise with its message; \<open>now\<close> is the instant after the
      adapter has answered\<close>
  "verifyResult db now q =
     (case querySportsDB db (team q) (date q) of
        (sportsDbResult, calls) \<Rightarrow>
          if truthy (db_error sportsDbResult)
          then (Inr (sports_blank\<lparr> verified := False, confidence := 0,
                       error := db_error sportsDbResult, query := Some q,
                       sources := [''thesportsdb''], timestamp := toISOString now \<rparr>), calls)
          else (case opponentMatch sportsDbResult (opponent q) of
                  None \<Rightarrow> (Inl type_error, calls)
                | Some matches \<Rightarrow>
                    (Inr (sports_blank\<lparr> verified := True,
                            confidence := (if matches \<and> truthy (opponent q) then 0.85 else 0.75),
                            result := Some \<lparr> g_homeTeam = homeTeam sportsDbResult,
                                             g_awayTeam = awayTeam sportsDbResult,
                                             g_homeScore = homeScore sportsDbResult,
                                             g_awayScore = awayScore sportsDbResult,
                                             g_winner = winner sportsDbResult,
                                             finalScore = (homeScore sportsDbResult,
                                                           awayScore sportsDbResult) \<rparr>,
                            res_league := league sportsDbResult,
                            res_date := db_date sportsDbResult,
                            query := Some q, sources := [''thesportsdb''],
                            sourcesAgreed := Some 1, sourcesQueried := Some 1,
                            timestamp := toISOString now \<rparr>), calls)))"

text \<open>
  What one call of \<open>askOracle\<close> meets: the engine's date parser, the instant \<open>now0\<close> at
  which the call starts, the instant \<open>now1\<close> at which the adapter has answered, whether
  the stats file can be written, and the provider.
\<close>

record sports_env =
  engine :: "string \<Rightarrow> string option"
  now0 :: js_date
  now1 :: js_date
  disk_ok :: bool
  provider :: sportsdb

definition could_not_parse_team :: "js_date \<Rightarrow> sports_query \<Rightarrow> sports_result" where
  "could_not_parse_team now p =
     sports_blank\<lparr> verified := False, confidence := 0,
       error := Some ''could_not_parse_team_name'',
       suggestion := Some ''Please include a team name in your question'',
       parsed := Some p, timestamp := toISOString now \<rparr>"

definition plain_askOracle ::
  "sports_env \<Rightarrow> string \<Rightarrow> (string + sports_result) \<times> event list" where
  \<comment> \<open>\<open>askOracle\<close> of \<open>oracle.js\<close>, the module \<open>server.mjs\<close> loads: no safety rails, no
      stats\<close>
  "plain_askOracle env q =
     (let p = sports_parseQuestion (engine env) (now0 env) q in
      if \<not> truthy (team p) then (Inr (could_not_parse_team (now0 env) p), [])
      else verifyResult (provider env) (now1 env) p)"

definition sports_rejection :: "js_date \<Rightarrow> string \<Rightarrow> string \<Rightarrow> sports_result" where
  \<comment> \<open>the answer of a call the pre-check rejects\<close>
  "sports_rejection now why msg =
     sports_blank\<lparr> verified := False, confidence := 0, error := Some why,
       message := Some msg, safetyTriggered := True, timestamp := toISOString now \<rparr>"

definition sports_start ::
  "sports_env \<Rightarrow> sports_stats option \<Rightarrow> string \<Rightarrow>
     (sports_result, sports_query) progress \<times> sports_stats option" where
  \<comment> \<open>\<open>askOracle\<close> of the module with the safety rails, up to \<open>await verifyResult(parsed)\<close>:
      the pre-check, the parser and the early return, with the stats file afterwards\<close>
  "sports_start env file q =
     (case sports_checkSafetyLimits (now0 env) file of
        Unsafe why msg \<Rightarrow> (Returned (sports_rejection (now0 env) why msg), file)
      | Safe \<Rightarrow>
          (let p0 = sports_parseQuestion (engine env) (now0 env) q;
               p = p0\<lparr> team := map_option normalizeTeamName (team p0),
                        opponent := map_option normalizeTeamName (opponent p0) \<rparr>
           in if \<not> truthy (team p)
              then (let r = could_not_parse_team (now0 env) p
                    in (Returned r, sports_logQuery (now0 env) (disk_ok env) file r))
              else (Awaiting p, file)))"

definition sports_finish ::
  "sports_env \<Rightarrow> sports_query \<Rightarrow> sports_stats option \<Rightarrow>
     (string + sports_result) \<times> sports_stats option \<times> event list" where
  \<comment> \<open>\<open>askOracle\<close> from the answer of \<open>verifyResult\<close> on: the floor and \<open>logQuery\<close>, which
      reads the stats file as it is by then\<close>
  "sports_finish env p file =
     (case verifyResult (provider env) (now1 env) p of
        (Inl e, calls) \<Rightarrow> (Inl e, file, calls)
      | (Inr r0, calls) \<Rightarrow>
          (let r = (if verified r0 \<and> 0 < confidence r0
                    then r0\<lparr> confidence := applyConfidenceFloor (confidence r0) \<rparr>
                    else r0)
           in (Inr r, sports_logQuery (now1 env) (disk_ok env) file r, calls)))"

definition sports_askOracle ::
  "sports_env \<Rightarrow> sports_stats option \<Rightarrow> string \<Rightarrow>
     (string + sports_result) \<times> sports_stats option \<times> event list" where
  \<comment> \<open>a call of \<open>askOracle\<close> that no other call overlaps, so that its second half meets
      the file its first half left: the answer, the stats file afterwards, and the
      outbound calls made\<close>
  "sports_askOracle env file q =
     (case sports_start env file q of
        (Returned r, file') \<Rightarrow> (Inr r, file', [])
      | (Awaiting p, file') \<Rightarrow> sports_finish env p file')"

text \<open>
  Calls that overlap. A step either begins a call, which runs its first half on the
  stats file of the moment and is then in flight unless it has returned, or completes
  the call in flight at a position, which runs its second half on the stats file of
  that moment.
\<close>

datatype sports_step = Begin sports_env string | Complete nat

fun sports_do ::
  "sports_step \<Rightarrow> sports_stats option \<times> (sports_env \<times> sports_query) list \<Rightarrow>
     sports_stats option \<times> (sports_env \<times> sports_query) list" where
  "sports_do (Begin env q) (file, flights) =
     (case sports_start env file q of
        (Returned r, file') \<Rightarrow> (file', flights)
      | (Awaiting p, file') \<Rightarrow> (file', flights @ [(env, p)]))"
| "sports_do (Complete i) (file, flights) =
     (if i < length flights
      then (case flights ! i of
              (env, p) \<Rightarrow>
                (fst (snd (sports_finish env p file)), take i flights @ drop (Suc i) flights))
      else (file, flights))"

fun sports_schedule ::
  "sports_step list \<Rightarrow> sports_stats option \<times> (sports_env \<times> sports_query) list \<Rightarrow>
     sports_stats option \<times> (sports_env \<times> sports_query) list" where
  "sports_schedule [] st = st"
| "sports_schedule (step # steps) st = sports_schedule steps (sports_do step st)"

section \<open>The reddit oracle\<close>

definition reddit_maxQueriesPerMinute :: nat where
  "reddit_maxQueriesPerMinute = 30"

definition reddit_maxQueriesPerDay :: nat where
  "reddit_maxQueriesPerDay = 500"

definition reddit_maxConsecutiveErrors :: nat where
  "reddit_maxConsecutiveErrors = 5"

definition requestDelayMs :: int where
  "requestDelayMs = 2000"

definition USER_AGENT :: string where
  "USER_AGENT = ''RedditOracle/1.0 (OpenClaw Agent; +https://openclaw.ai)''"

record reddit_entry =
  re_timestamp :: string
  re_query :: "reddit_query option"
  re_success :: bool
  re_subreddit :: "string option"
  re_error :: "string option"

type_synonym reddit_stats = "reddit_entry stats"

record post =
  p_id :: "string option"
  p_title :: "string option"
  p_author :: "string option"
  p_score :: int
  p_upvoteRatio :: "real option"
  p_numComments :: int
  p_selftext :: "string option"

record comment =
  kind :: string
  c_id :: "string option"
  c_author :: "string option"
  c_body :: "string option"
  c_score :: int

record metrics =
  totalScore :: int
  totalComments :: int
  avgScore :: int
  avgComments :: int
  avgUpvoteRatio :: real
    \<comment> \<open>before \<open>.toFixed(2)\<close>\<close>
  engagement :: int

record reddit_data =
  d_error :: "string option"
  d_success :: bool
  d_subreddit :: "string option"
  d_sort :: "query_type option"
  d_query :: "string option"
  posts :: "post list option"
  d_count :: "nat option"
  d_after :: "string option"
  d_post :: "post option"
  comments :: "comment list option"
  metrics :: "metrics option"

record reddit_result = oracle_result +
  success :: bool
  data :: "reddit_data option"
  res_subreddit :: "string option"
  queryType :: "query_type option"
  r_parsed :: "reddit_query option"
  r_query :: "reddit_query option"

text \<open>
  Reddit as the adapter sees it. A listing body is \<open>response.data.data\<close> (its children
  and the cursor), None when \<open>!response.data || !response.data.data\<close>; a thread body is
  the post \<open>response.data[0]?.data?.children?.[0]?.data\<close> with the comment children of
  \<open>response.data[1]\<close>, None when \<open>response.data\<close> is not an array.
\<close>

record reddit_api =
  listing :: "string \<Rightarrow> query_type option \<Rightarrow> nat \<Rightarrow> (post list \<times> string option) option reply"
  thread :: "string \<Rightarrow> string \<Rightarrow> (post option \<times> comment list) option reply"
  search_listing :: "string \<Rightarrow> string \<Rightarrow> nat \<Rightarrow> (post list \<times> string option) option reply"

definition reddit_loadStats :: "js_date \<Rightarrow> reddit_stats option \<Rightarrow> reddit_stats" where
  "reddit_loadStats now file =
     (case file of
        Some st \<Rightarrow> st
      | None \<Rightarrow>
          \<lparr> totalQueries = 0, todayQueries = 0, successCount = 0, errorCount = 0,
            hourlyData = replicate 24 (Some 0), recentQueries = [],
            lastReset = toDateString now \<rparr>)"

definition reddit_logQuery ::
  "js_date \<Rightarrow> bool \<Rightarrow> reddit_stats option \<Rightarrow> reddit_result \<Rightarrow> reddit_stats option" where
  "reddit_logQuery now writable file r =
     (let stats = reddit_loadStats now file;
          stats1 = (if lastReset stats \<noteq> toDateString now
                    then stats\<lparr> todayQueries := 0, hourlyData := replicate 24 (Some 0),
                                lastReset := toDateString now \<rparr>
                    else stats);
          stats2 = stats1\<lparr> totalQueries := totalQueries stats1 + 1,
                            todayQueries := todayQueries stats1 + 1,
                            hourlyData := increment (hourlyData stats1) (getHours now) \<rparr>;
          stats3 = (if success r
                    then stats2\<lparr> successCount := successCount stats2 + 1 \<rparr>
                    else stats2\<lparr> errorCount := errorCount stats2 + 1 \<rparr>);
          entry = \<lparr> re_timestamp = toISOString now, re_query = r_query r,
                    re_success = success r, re_subreddit = res_subreddit r,
                    re_error = error r \<rparr>
      in saveStats writable file
           (stats3\<lparr> recentQueries := take 50 (entry # recentQueries stats3) \<rparr>))"

definition reddit_checkSafetyLimits :: "js_date \<Rightarrow> reddit_stats option \<Rightarrow> safety" where
  "reddit_checkSafetyLimits now file =
     (let stats = reddit_loadStats now file;
          recent = take reddit_maxConsecutiveErrors (recentQueries stats);
          consecutiveErrors = length (filter (\<lambda>q. \<not> re_success q) recent)
      in if reddit_maxConsecutiveErrors \<le> length recent \<and>
            consecutiveErrors = reddit_maxConsecutiveErrors
         then Unsafe ''circuit_breaker_tripped''
                ''5 consecutive errors detected. Operations paused.''
         else if reddit_maxQueriesPerDay \<le> todayQueries stats
         then Unsafe ''daily_limit_reached'' ''Daily query limit (500) reached.''
         else Safe)"

definition enforceRateLimit :: "int \<Rightarrow> nat \<Rightarrow> int \<Rightarrow> int \<times> event list" where
  \<comment> \<open>\<open>now\<close> is \<open>Date.now()\<close> on entry and \<open>lag\<close> how late the timer fires; the result
      is the new \<open>lastRequestTime\<close>, the instant at which the function returns and the
      outbound call is issued\<close>
  "enforceRateLimit now lag lastRequestTime =
     (let elapsed = now - lastRequestTime in
      if elapsed < requestDelayMs
      then (now + (requestDelayMs - elapsed) + int lag, [Sleep (nat (requestDelayMs - elapsed))])
      else (now, []))"

subsection \<open>The source adapter\<close>

definition reddit_get :: "endpoint \<Rightarrow> event" where
  \<comment> \<open>\<open>axios.get(url, { headers: { 'User-Agent': USER_AGENT }, timeout: 10000 })\<close>\<close>
  "reddit_get u = Get \<lparr> url = u, userAgent = Some USER_AGENT, timeout = Some 10000 \<rparr>"

definition data_blank :: reddit_data where
  "data_blank =
     \<lparr> d_error = None, d_success = False, d_subreddit = None, d_sort = None,
       d_query = None, posts = None, d_count = None, d_after = None, d_post = None,
       comments = None, metrics = None \<rparr>"

definition data_failure :: "string \<Rightarrow> reddit_data" where
  \<comment> \<open>\<open>{ error: e, source: 'reddit' }\<close>\<close>
  "data_failure e = data_blank\<lparr> d_error := Some e \<rparr>"

definition substring500 :: "string option \<Rightarrow> string option" where
  \<comment> \<open>\<open>t ? t.substring(0, 500) : null\<close>\<close>
  "substring500 t = (if truthy t then map_option (take 500) t else None)"

definition fetchSubreddit ::
  "reddit_api \<Rightarrow> int \<Rightarrow> nat \<Rightarrow> int \<Rightarrow> string \<Rightarrow> query_type option \<Rightarrow> nat \<Rightarrow>
     reddit_data \<times> int \<times> event list" where
  \<comment> \<open>the data, the new \<open>lastRequestTime\<close>, and the sleeps and calls made\<close>
  "fetchSubreddit api now lag lastTime sub sorting cnt =
     (case enforceRateLimit now lag lastTime of
        (last', waited) \<Rightarrow>
          (case listing api sub sorting cnt of
             Rejected st m \<Rightarrow>
               (if st = Some 404 then data_failure ''subreddit_not_found''
                else if st = Some 403 then data_failure ''subreddit_private''
                else if st = Some 429 then data_failure ''rate_limited''
                else data_failure m)
           | Resolved None \<Rightarrow> data_failure ''invalid_response''
           | Resolved (Some (children, cursor)) \<Rightarrow>
               data_blank\<lparr> d_success := True, d_subreddit := Some sub, d_sort := sorting,
                 posts := Some (map (\<lambda>c. c\<lparr> p_selftext := substring500 (p_selftext c) \<rparr>) children),
                 d_count := Some (length children), d_after := cursor \<rparr>,
           last', waited @ [reddit_get (Listing sub sorting cnt)]))"

definition fetchPost ::
  "reddit_api \<Rightarrow> int \<Rightarrow> nat \<Rightarrow> int \<Rightarrow> string \<Rightarrow> string \<Rightarrow> reddit_data \<times> int \<times> event list" where
  "fetchPost api now lag lastTime sub pid =
     (case enforceRateLimit now lag lastTime of
        (last', waited) \<Rightarrow>
          (case thread api sub pid of
             Rejected st m \<Rightarrow> data_failure m
           | Resolved None \<Rightarrow> data_failure ''invalid_response''
           | Resolved (Some (None, cs)) \<Rightarrow> data_failure ''post_not_found''
           | Resolved (Some (Some postData, cs)) \<Rightarrow>
               data_blank\<lparr> d_success := True, d_post := Some postData,
                 comments := Some (map (\<lambda>c. c\<lparr> c_body := map_option (take 500) (c_body c) \<rparr>)
                                    (take 20 (filter (\<lambda>c. kind c = ''t1'') cs))),
                 d_count := Some (length (take 20 (filter (\<lambda>c. kind c = ''t1'') cs))) \<rparr>,
           last', waited @ [reddit_get (Comments sub pid)]))"

definition searchSubreddit ::
  "reddit_api \<Rightarrow> int \<Rightarrow> nat \<Rightarrow> int \<Rightarrow> string \<Rightarrow> string \<Rightarrow> nat \<Rightarrow>
     reddit_data \<times> int \<times> event list" where
  "searchSubreddit api now lag lastTime sub q cnt =
     (case enforceRateLimit now lag lastTime of
        (last', waited) \<Rightarrow>
          (case search_listing api sub q cnt of
             Rejected st m \<Rightarrow> data_failure m
           | Resolved None \<Rightarrow> data_failure ''invalid_response''
           | Resolved (Some (children, cursor)) \<Rightarrow>
               data_blank\<lparr> d_success := True, d_subreddit := Some sub, d_query := Some q,
                 posts := Some (map (\<lambda>c. c\<lparr> p_upvoteRatio := None, p_selftext := None \<rparr>) children),
                 d_count := Some (length children) \<rparr>,
           last', waited @ [reddit_get (SearchListing sub q cnt)]))"

subsection \<open>askOracle\<close>

record reddit_env =
  r_now0 :: js_date
  r_now1 :: js_date
  r_disk_ok :: bool
  date_now :: int
    \<comment> \<open>\<open>Date.now()\<close> on entry to \<open>enforceRateLimit\<close>\<close>
  timer_lag :: nat
  api :: reddit_api

text \<open>The module's state: the stats file and the variable \<open>lastRequestTime\<close>.\<close>

record reddit_world =
  stats_file :: "reddit_stats option"
  last_request :: int

definition reddit_blank :: reddit_result where
  "reddit_blank =
     \<lparr> confidence = 0, error = None, message = None, safetyTriggered = False,
       suggestion = None, sources = [], timestamp = [], payment = None,
       success = False, data = None, res_subreddit = None, queryType = None,
       r_parsed = None, r_query = None \<rparr>"

definition parse_failure :: "js_date \<Rightarrow> reddit_query \<Rightarrow> string \<Rightarrow> string \<Rightarrow> reddit_result" where
  "parse_failure now p e hint =
     reddit_blank\<lparr> success := False, confidence := 0, error := Some e,
       suggestion := Some hint, r_parsed := Some p, timestamp := toISOString now \<rparr>"

definition round_div :: "int \<Rightarrow> nat \<Rightarrow> int" where
  \<comment> \<open>\<open>Math.round(total / n)\<close>: halves go up\<close>
  "round_div t n = (2 * t + int n) div (2 * int n)"

definition with_metrics :: "reddit_data \<Rightarrow> reddit_data" where
  \<comment> \<open>the block \<open>if (data.posts && data.posts.length > 0) { ... data.metrics = ... }\<close>\<close>
  "with_metrics d =
     (case posts d of
        None \<Rightarrow> d
      | Some [] \<Rightarrow> d
      | Some ps \<Rightarrow>
          (let ts = sum_list (map p_score ps);
               tc = sum_list (map p_numComments ps);
               ratios = map (\<lambda>p. case p_upvoteRatio p of
                                    None \<Rightarrow> 0.5
                                  | Some u \<Rightarrow> if u = 0 then 0.5 else u) ps
           in d\<lparr> metrics := Some \<lparr> totalScore = ts, totalComments = tc,
                                    avgScore = round_div ts (length ps),
                                    avgComments = round_div tc (length ps),
                                    avgUpvoteRatio = sum_list ratios / real (length ps),
                                    engagement = ts + tc * 2 \<rparr> \<rparr>))"

definition logged ::
  "reddit_env \<Rightarrow> js_date \<Rightarrow> reddit_world \<Rightarrow> reddit_result \<Rightarrow> reddit_world" where
  "logged env now w r = w\<lparr> stats_file := reddit_logQuery now (r_disk_ok env) (stats_file w) r \<rparr>"

definition reddit_rejection :: "js_date \<Rightarrow> string \<Rightarrow> string \<Rightarrow> reddit_result" where
  \<comment> \<open>the answer of a call the pre-check rejects\<close>
  "reddit_rejection now why msg =
     reddit_blank\<lparr> success := False, confidence := 0, error := Some why,
       message := Some msg, safetyTriggered := True, timestamp := toISOString now \<rparr>"

text \<open>
  A reddit call in flight: the parsed query and its subreddit, what the adapter will
  return once the provider has answered, the value that \<open>lastRequestTime = Date.now()\<close>
  assigns behind the rate limit, the sleep and the outbound call, the confidence of the
  query type, and whether the rate limit is behind it (\<open>fl_awake\<close>).
\<close>

record reddit_flight =
  fl_query :: reddit_query
  fl_sub :: string
  fl_data :: reddit_data
  fl_wake :: int
  fl_events :: "event list"
  fl_conf :: real
  fl_awake :: bool

definition reddit_start ::
  "reddit_env \<Rightarrow> reddit_world \<Rightarrow> string \<Rightarrow>
     (reddit_result, reddit_flight) progress \<times> reddit_world" where
  \<comment> \<open>\<open>askOracle\<close> up to the first \<open>await\<close> that suspends it: the pre-check, the parser,
      the early returns and the first half of \<open>enforceRateLimit\<close>, which reads
      \<open>lastRequestTime\<close> and, when no sleep is due, assigns it at once\<close>
  "reddit_start env w q =
     (case reddit_checkSafetyLimits (r_now0 env) (stats_file w) of
        Unsafe why msg \<Rightarrow> (Returned (reddit_rejection (r_now0 env) why msg), w)
      | Safe \<Rightarrow>
          (let p = reddit_parseQuestion q in
           case (if truthy (subreddit p) then subreddit p else None) of
             None \<Rightarrow>
               (let r = parse_failure (r_now0 env) p ''could_not_parse_subreddit''
                          ''Please include a subreddit name (e.g., r/wallstreetbets) in your question''
                in (Returned r, logged env (r_now0 env) w r))
           | Some sub \<Rightarrow>
               (case (case qtype p of
                        Some POST \<Rightarrow>
                          (case (if truthy (postId p) then postId p else None) of
                             None \<Rightarrow> Inl (parse_failure (r_now0 env) p ''could_not_parse_post_id''
                                            ''Please include a post ID or Reddit URL'')
                           | Some pid \<Rightarrow>
                               Inr (fetchPost (api env) (date_now env) (timer_lag env)
                                      (last_request w) sub pid, 0.85))
                      | Some SEARCH \<Rightarrow>
                          (case (if truthy (keyword p) then keyword p else None) of
                             None \<Rightarrow> Inl (parse_failure (r_now0 env) p ''could_not_parse_search_keyword''
                                            ''Please include a search term'')
                           | Some kw \<Rightarrow>
                               Inr (searchSubreddit (api env) (date_now env) (timer_lag env)
                                      (last_request w) sub kw (limit p), 0.80))
                      | _ \<Rightarrow>
                          Inr (fetchSubreddit (api env) (date_now env) (timer_lag env)
                                 (last_request w) sub (qtype p) (limit p), 0.85)) of
                  Inl r \<Rightarrow> (Returned r, logged env (r_now0 env) w r)
                | Inr ((d, last', evs), conf) \<Rightarrow>
                    (Awaiting \<lparr> fl_query = p, fl_sub = sub, fl_data = d, fl_wake = last',
                                fl_events = evs, fl_conf = conf, fl_awake = (sleeps evs = []) \<rparr>,
                     if sleeps evs = [] then w\<lparr> last_request := last' \<rparr> else w))))"

definition reddit_wake :: "reddit_flight \<Rightarrow> reddit_world \<Rightarrow> reddit_world" where
  \<comment> \<open>the timer of \<open>enforceRateLimit\<close> fires: \<open>lastRequestTime = Date.now()\<close>, and the
      outbound call goes out\<close>
  "reddit_wake fl w = w\<lparr> last_request := fl_wake fl \<rparr>"

definition reddit_finish ::
  "reddit_env \<Rightarrow> reddit_flight \<Rightarrow> reddit_world \<Rightarrow> reddit_result \<times> reddit_world" where
  \<comment> \<open>\<open>askOracle\<close> from the adapter's answer on: the result and \<open>logQuery\<close>, which reads
      the stats file as it is by then\<close>
  "reddit_finish env fl w =
     (let d = fl_data fl;
          r = (if truthy (d_error d)
               then reddit_blank\<lparr> success := False, confidence := 0,
                      error := d_error d, res_subreddit := Some (fl_sub fl),
                      r_query := Some (fl_query fl), timestamp := toISOString (r_now1 env) \<rparr>
               else reddit_blank\<lparr> success := True, confidence := fl_conf fl,
                      data := Some (with_metrics d), res_subreddit := Some (fl_sub fl),
                      queryType := qtype (fl_query fl), r_query := Some (fl_query fl),
                      sources := [''reddit''],
                      timestamp := toISOString (r_now1 env) \<rparr>)
      in (r, logged env (r_now1 env) w r))"

definition reddit_askOracle ::
  "reddit_env \<Rightarrow> reddit_world \<Rightarrow> string \<Rightarrow> reddit_result \<times> reddit_world \<times> event list" where
  \<comment> \<open>a call of \<open>askOracle\<close> that no other call overlaps, so that each part meets the
      state the part before left: the answer, the state afterwards, and the sleep and
      outbound call made\<close>
  "reddit_askOracle env w q =
     (case reddit_start env w q of
        (Returned r, w') \<Rightarrow> (r, w', [])
      | (Awaiting fl, w') \<Rightarrow>
          (case reddit_finish env fl (if fl_awake fl then w' else reddit_wake fl w') of
             (r, w'') \<Rightarrow> (r, w'', fl_events fl)))"

text \<open>
  Calls that overlap: a step begins a call, lets the timer of the call in flight at a
  position fire, or completes the call in flight at a position once its timer has fired.
\<close>

datatype reddit_step = RBegin reddit_env string | RWake nat | RComplete nat

fun reddit_do ::
  "reddit_step \<Rightarrow> reddit_world \<times> (reddit_env \<times> reddit_flight) list \<Rightarrow>
     reddit_world \<times> (reddit_env \<times> reddit_flight) list" where
  "reddit_do (RBegin env q) (w, flights) =
     (case reddit_start env w q of
        (Returned r, w') \<Rightarrow> (w', flights)
      | (Awaiting fl, w') \<Rightarrow> (w', flights @ [(env, fl)]))"
| "reddit_do (RWake i) (w, flights) =
     (if i < length flights
      then (case flights ! i of
              (env, fl) \<Rightarrow>
                if fl_awake fl then (w, flights)
                else (reddit_wake fl w, flights[i := (env, fl\<lparr> fl_awake := True \<rparr>)]))
      else (w, flights))"
| "reddit_do (RComplete i) (w, flights) =
     (if i < length flights
      then (case flights ! i of
              (env, fl) \<Rightarrow>
                if fl_awake fl
                then (snd (reddit_finish env fl w), take i flights @ drop (Suc i) flights)
                else (w, flights))
      else (w, flights))"

fun reddit_schedule ::
  "reddit_step list \<Rightarrow> reddit_world \<times> (reddit_env \<times> reddit_flight) list \<Rightarrow>
     reddit_world \<times> (reddit_env \<times> reddit_flight) list" where
  "reddit_schedule [] st = st"
| "reddit_schedule (step # steps) st = reddit_schedule steps (reddit_do step st)"

section \<open>The payment-gated request handler\<close>

datatype jsvalue = Str string | Other bool bool
  \<comment> \<open>the property \<open>question\<close> of a parsed body: a string, or a value of another type
      (null, a boolean, a number, an array, an object) with what the handler observes of
      it: whether it is truthy, and whether it converts to a string inside a template
      literal (an object with a property \<open>toString\<close> of its own, or an array that holds
      one, does not)\<close>

definition truthy_value :: "jsvalue option \<Rightarrow> bool" where
  \<comment> \<open>\<open>body.question\<close> in a condition; None is undefined\<close>
  "truthy_value v =
     (case v of None \<Rightarrow> False | Some (Str s) \<Rightarrow> s \<noteq> [] | Some (Other t _) \<Rightarrow> t)"

definition printable :: "jsvalue \<Rightarrow> bool" where
  "printable v = (case v of Str _ \<Rightarrow> True | Other _ p \<Rightarrow> p)"

datatype body = InvalidJSON | NullBody | Body "jsvalue option"
  \<comment> \<open>what \<open>parseBody\<close> gives: a rejection (the text is not JSON); the value null (the
      text is \<open>null\<close>); or any other value with its property \<open>question\<close>, which is
      undefined (None) on an object without it and on a number, a boolean, a string and
      an array. An empty body counts as \<open>{}\<close>.\<close>

text \<open>
  The messages of the TypeErrors the handler and the oracles meet on such values, in the
  wording of V8: reading a property of null, converting an object that has no usable
  \<open>toString\<close>, and calling \<open>question.match\<close> on a value that is not a string.
\<close>

definition null_body_error :: string where
  "null_body_error =
     ''Cannot read properties of null (reading '' @ [CHR 0x27] @ ''question'' @ [CHR 0x27] @ '')''"

definition not_printable_error :: string where
  "not_printable_error = ''Cannot convert object to primitive value''"

definition not_a_function_error :: string where
  "not_a_function_error = ''question.match is not a function''"

record http_request =
  payment_signature :: "string option"
  authorization :: "string option"
  req_body :: body

record config =
  planId :: "string option"
  agentId :: "string option"
  endpoint_path :: string
  name :: string

record paymentRequired =
  x402Version :: nat
  resource_url :: string
  scheme :: string
  network :: string
  pr_planId :: "string option"
  pr_agentId :: "string option"
  httpVerb :: string

definition buildPaymentRequired ::
  "string \<Rightarrow> string \<Rightarrow> string option \<Rightarrow> string option \<Rightarrow> paymentRequired" where
  "buildPaymentRequired ep verb plan agent =
     \<lparr> x402Version = 2, resource_url = ep, scheme = ''nvm:erc4337'',
       network = ''eip155:8453'', pr_planId = plan, pr_agentId = agent, httpVerb = verb \<rparr>"

datatype 'a outcome = Throws string | Returns 'a
  \<comment> \<open>a call of the payment service: it throws with \<open>err.message\<close>, or it returns\<close>

text \<open>
  The payment service: \<open>verifyPermissions\<close> answers with \<open>isValid\<close>, \<open>settlePermissions\<close>
  with \<open>txHash\<close>; both receive the payment descriptor, the token and \<open>maxAmount\<close>.
\<close>

record payments =
  verifyPermissions :: "paymentRequired \<Rightarrow> string \<Rightarrow> nat \<Rightarrow> bool outcome"
  settlePermissions :: "paymentRequired \<Rightarrow> string \<Rightarrow> nat \<Rightarrow> string option outcome"

record error_body =
  eb_error :: string
  eb_message :: string
  eb_planId :: "string option"
  eb_agentId :: "string option"
  pricePerQuery :: "string option"
  purchaseUrl :: "string option"
  details :: "string option"

datatype 'r json = ErrorJSON error_body | ResultJSON 'r

datatype srv_event =
    VerifyPermissions paymentRequired string nat
  | AskOracle jsvalue
  | Adapter event
  | SettlePermissions paymentRequired string nat

definition is_oracle_event :: "srv_event \<Rightarrow> bool" where
  \<comment> \<open>the oracle is invoked, or its source adapter sleeps or calls out\<close>
  "is_oracle_event e = (case e of AskOracle _ \<Rightarrow> True | Adapter _ \<Rightarrow> True | _ \<Rightarrow> False)"

definition is_settle :: "srv_event \<Rightarrow> bool" where
  "is_settle e = (case e of SettlePermissions _ _ _ \<Rightarrow> True | _ \<Rightarrow> False)"

fun replace_first :: "string \<Rightarrow> string \<Rightarrow> string" where
  \<comment> \<open>\<open>s.replace(pat, '')\<close>: the first occurrence is removed\<close>
  "replace_first pat [] = []"
| "replace_first pat (c # cs) =
     (if take (length pat) (c # cs) = pat then drop (length pat) (c # cs)
      else c # replace_first pat cs)"

definition x402Token :: "http_request \<Rightarrow> string option" where
  \<comment> \<open>\<open>req.headers['payment-signature'] || req.headers['authorization']?.replace('Bearer ', '')\<close>\<close>
  "x402Token req =
     (if truthy (payment_signature req) then payment_signature req
      else map_option (replace_first ''Bearer '') (authorization req))"

definition string_of :: "string option \<Rightarrow> string" where
  \<comment> \<open>a value inside a template literal\<close>
  "string_of v = (case v of None \<Rightarrow> ''undefined'' | Some s \<Rightarrow> s)"

definition purchase_url :: "string option \<Rightarrow> string" where
  "purchase_url agent = ''https://nevermined.app/agents/'' @ string_of agent"

definition error_blank :: error_body where
  "error_blank =
     \<lparr> eb_error = [], eb_message = [], eb_planId = None, eb_agentId = None,
       pricePerQuery = None, purchaseUrl = None, details = None \<rparr>"

definition handleOracleRequest ::
  "payments \<Rightarrow> js_date \<Rightarrow>
   (jsvalue \<Rightarrow> 'w \<Rightarrow> (string + 'z oracle_result_scheme) \<times> 'w \<times> event list) \<Rightarrow>
   config \<Rightarrow> http_request \<Rightarrow> 'w \<Rightarrow>
   (string + nat \<times> 'z oracle_result_scheme json) \<times> 'w \<times> srv_event list" where
  \<comment> \<open>\<open>oracle\<close> is \<open>oracle.askOracle\<close> on the state \<open>'w\<close> of its module. The result is
      what \<open>sendJSON\<close> sends (Inr, the status and the body) or, where a statement outside
      every \<open>try\<close> throws, the message of the error the handler's promise is rejected
      with (Inl): then no response is sent. With it come the state afterwards and the
      calls made, in order. The analytics hook between the oracle and the settlement
      reads the result, catches its own errors and is left out.\<close>
  "handleOracleRequest pay now oracle cfg req w =
     (case (if truthy (x402Token req) then x402Token req else None) of
        None \<Rightarrow>
          (Inr (402, ErrorJSON (error_blank\<lparr> eb_error := ''payment_required'',
              eb_message := ''This API requires Nevermined credits. Include x402 access token in payment-signature header.'',
              eb_planId := planId cfg, eb_agentId := agentId cfg,
              pricePerQuery := Some ''$0.05'',
              purchaseUrl := Some (purchase_url (agentId cfg)) \<rparr>)), w, [])
      | Some token \<Rightarrow>
          (case req_body req of
             InvalidJSON \<Rightarrow>
               (Inr (400, ErrorJSON (error_blank\<lparr> eb_error := ''invalid_json'',
                   eb_message := ''Request body must be valid JSON'' \<rparr>)), w, [])
           | NullBody \<Rightarrow>
               \<comment> \<open>\<open>body.question\<close> on null, outside every \<open>try\<close>\<close>
               (Inl null_body_error, w, [])
           | Body b \<Rightarrow>
               (case (if truthy_value b then b else None) of
                  None \<Rightarrow>
                    (Inr (400, ErrorJSON (error_blank\<lparr> eb_error := ''missing_question'',
                        eb_message := ''Request must include a '' @ [CHR 0x22] @ ''question'' @
                          [CHR 0x22] @ '' field'' \<rparr>)), w, [])
                | Some q \<Rightarrow>
                    (let paymentRequired =
                           buildPaymentRequired (endpoint_path cfg) ''POST'' (planId cfg) (agentId cfg);
                         verify = VerifyPermissions paymentRequired token 1
                     in case verifyPermissions pay paymentRequired token 1 of
                          Throws m \<Rightarrow>
                            (Inr (401, ErrorJSON (error_blank\<lparr> eb_error := ''verification_failed'',
                                eb_message := (if m \<noteq> [] then m else ''Failed to verify access token''),
                                purchaseUrl := Some (purchase_url (agentId cfg)) \<rparr>)), w, [verify])
                        | Returns False \<Rightarrow>
                            (Inr (401, ErrorJSON (error_blank\<lparr> eb_error := ''insufficient_credits'',
                                eb_message := ''Access token is invalid or you have insufficient credits'',
                                purchaseUrl := Some (purchase_url (agentId cfg)) \<rparr>)), w, [verify])
                        | Returns True \<Rightarrow>
                            \<comment> \<open>the log line converts the question, outside every \<open>try\<close>\<close>
                            if \<not> printable q then (Inl not_printable_error, w, [verify])
                            else
                            (case oracle q w of
                               (Inl m, w', evs) \<Rightarrow>
                                 (Inr (500, ErrorJSON (error_blank\<lparr> eb_error := ''oracle_error'',
                                     eb_message := ''Failed to process query'',
                                     details := Some m \<rparr>)), w',
                                  verify # AskOracle q # map Adapter evs)
                             | (Inr oracleResult, w', evs) \<Rightarrow>
                                 (Inr (200, ResultJSON
                                    (case settlePermissions pay paymentRequired token 1 of
                                       Returns tx \<Rightarrow>
                                         oracleResult\<lparr> payment := Some
                                           \<lparr> creditsUsed = 1, txHash = tx,
                                             pay_timestamp = Some (toISOString now),
                                             pay_error = None, pay_message = None \<rparr> \<rparr>
                                     | Throws m \<Rightarrow>
                                         oracleResult\<lparr> payment := Some
                                           \<lparr> creditsUsed = 0, txHash = None,
                                             pay_timestamp = None,
                                             pay_error = Some ''settlement_failed'',
                                             pay_message = Some m \<rparr> \<rparr>)), w',
                                  verify # AskOracle q # map Adapter evs @
                                    [SettlePermissions paymentRequired token 1]))))))"

text \<open>
  \<open>oracle.askOracle\<close> as the handler calls it, on whatever the body holds as its
  question. A question that is not a string has no method \<open>match\<close>: \<open>parseQuestion\<close>
  throws at its first pattern and the promise of \<open>askOracle\<close> is rejected; the reddit
  oracle runs its pre-check before that. The sports route loads \<open>oracle.js\<close>, which
  keeps no state. A string is answered as by a call that nothing overlaps.
\<close>

definition sports_oracle ::
  "sports_env \<Rightarrow> jsvalue \<Rightarrow> unit \<Rightarrow> (string + sports_result) \<times> unit \<times> event list" where
  "sports_oracle env v w =
     (case v of
        Str q \<Rightarrow> (case plain_askOracle env q of (r, evs) \<Rightarrow> (r, w, evs))
      | Other _ _ \<Rightarrow> (Inl not_a_function_error, w, []))"

definition reddit_oracle ::
  "reddit_env \<Rightarrow> jsvalue \<Rightarrow> reddit_world \<Rightarrow> (string + reddit_result) \<times> reddit_world \<times> event list" where
  "reddit_oracle env v w =
     (case v of
        Str q \<Rightarrow> (case reddit_askOracle env w q of (r, w', evs) \<Rightarrow> (Inr r, w', evs))
      | Other _ _ \<Rightarrow>
          (case reddit_checkSafetyLimits (r_now0 env) (stats_file w) of
             Unsafe why msg \<Rightarrow> (Inr (reddit_rejection (r_now0 env) why msg), w, [])
           | Safe \<Rightarrow> (Inl not_a_function_error, w, [])))"

text \<open>The two routes of \<open>handleRequest\<close>: \<open>/api/verify\<close> and \<open>/api/reddit\<close>.\<close>

definition sports_route ::
  "payments \<Rightarrow> js_date \<Rightarrow> sports_env \<Rightarrow> string option \<Rightarrow> string option \<Rightarrow> http_request \<Rightarrow>
     (string + nat \<times> sports_result json) \<times> unit \<times> srv_event list" where
  "sports_route pay now env plan agent req =
     handleOracleRequest pay now (sports_oracle env)
       \<lparr> planId = plan, agentId = agent, endpoint_path = ''/api/verify'', name = ''Sports'' \<rparr>
       req ()"

definition reddit_route ::
  "payments \<Rightarrow> js_date \<Rightarrow> reddit_env \<Rightarrow> string option \<Rightarrow> string option \<Rightarrow> http_request \<Rightarrow>
     reddit_world \<Rightarrow> (string + nat \<times> reddit_result json) \<times> reddit_world \<times> srv_event list" where
  "reddit_route pay now env plan agent req w =
     handleOracleRequest pay now (reddit_oracle env)
       \<lparr> planId = plan, agentId = agent, endpoint_path = ''/api/reddit'', name = ''Reddit'' \<rparr>
       req w"

section \<open>The confidence rule and example inputs\<close>

definition confidence_rule :: "bool \<Rightarrow> real \<Rightarrow> bool" where
  \<comment> \<open>a failure carries confidence 0, a success one between the floor 0.5 and 1\<close>
  "confidence_rule flag c = (if flag then 0.5 \<le> c \<and> c \<le> 1 else c = 0)"

definition example_now :: js_date where
  "example_now =
     \<lparr> localTime = 1793701800000, toDateString = ''Tue Nov 03 2026'',
       toISOString = ''2026-11-03T10:30:00.000Z'',
       yesterdayISOString = ''2026-11-02T10:30:00.000Z'' \<rparr>"

definition failed_entry :: sports_entry where
  "failed_entry =
     \<lparr> e_timestamp = ''2026-11-03T09:00:00.000Z'', e_query = None, e_verified = False,
       e_confidence = 0, e_winner = None, e_error = Some ''team_not_found'' \<rparr>"

definition tripped_sports :: sports_stats where
  \<comment> \<open>five failures at the head of the log, 999 queries today\<close>
  "tripped_sports =
     \<lparr> totalQueries = 999, todayQueries = 999, successCount = 994, errorCount = 5,
       hourlyData = (replicate 24 (Some 0))[9 := Some 999],
       recentQueries = replicate 5 failed_entry,
       lastReset = ''Tue Nov 03 2026'', confidenceSum = 745.5 \<rparr>"

definition four_failures :: sports_stats where
  \<comment> \<open>four failures at the head of the log: one more trips the breaker\<close>
  "four_failures =
     \<lparr> totalQueries = 4, todayQueries = 4, successCount = 0, errorCount = 4,
       hourlyData = (replicate 24 (Some 0))[9 := Some 4],
       recentQueries = replicate 4 failed_entry,
       lastReset = ''Tue Nov 03 2026'', confidenceSum = 0 \<rparr>"

definition stale_sports :: sports_stats where
  \<comment> \<open>a file last written the day before\<close>
  "stale_sports =
     \<lparr> totalQueries = 7, todayQueries = 7, successCount = 7, errorCount = 0,
       hourlyData = (replicate 24 (Some 0))[23 := Some 7],
       recentQueries = [],
       lastReset = ''Mon Nov 02 2026'', confidenceSum = 5.25 \<rparr>"

definition good_result :: sports_result where
  "good_result =
     sports_blank\<lparr> verified := True, confidence := 0.75, sources := [''thesportsdb''],
       sourcesAgreed := Some 1, sourcesQueried := Some 1,
       timestamp := ''2026-11-03T10:30:00.000Z'' \<rparr>"

definition failed_reddit_entry :: reddit_entry where
  "failed_reddit_entry =
     \<lparr> re_timestamp = ''2026-11-03T09:00:00.000Z'', re_query = None, re_success = False,
       re_subreddit = Some ''wallstreetbets'', re_error = Some ''rate_limited'' \<rparr>"

definition tripped_reddit :: reddit_stats where
  "tripped_reddit =
     \<lparr> totalQueries = 499, todayQueries = 499, successCount = 494, errorCount = 5,
       hourlyData = (replicate 24 (Some 0))[9 := Some 499],
       recentQueries = replicate 5 failed_reddit_entry,
       lastReset = ''Tue Nov 03 2026'' \<rparr>"

definition stale_reddit :: reddit_stats where
  "stale_reddit =
     \<lparr> totalQueries = 7, todayQueries = 7, successCount = 7, errorCount = 0,
       hourlyData = (replicate 24 (Some 0))[23 := Some 7],
       recentQueries = [],
       lastReset = ''Mon Nov 02 2026'' \<rparr>"

definition good_reddit_result :: reddit_result where
  "good_reddit_result =
     reddit_blank\<lparr> success := True, confidence := 0.85, sources := [''reddit''],
       res_subreddit := Some ''wallstreetbets'', queryType := Some HOT,
       timestamp := ''2026-11-03T10:30:00.000Z'' \<rparr>"

definition example_db :: sportsdb where
  \<comment> \<open>a provider that knows one team and its game of 2026-01-19\<close>
  "example_db =
     \<lparr> searchteams = (\<lambda>_. Resolved (Some [\<lparr> idTeam = Some ''134867'' \<rparr>])),
       eventslast = (\<lambda>_. Resolved (Some
         [\<lparr> dateEvent = Some ''2026-01-19'', intHomeScore = Some ''110'',
            intAwayScore = Some ''102'', strHomeTeam = Some ''Los Angeles Lakers'',
            strAwayTeam = Some ''Boston Celtics'', strLeague = Some ''NBA'',
            idEvent = Some ''2267073'' \<rparr>])) \<rparr>"

definition example_env :: sports_env where
  "example_env =
     \<lparr> engine = (\<lambda>_. None), now0 = example_now, now1 = example_now, disk_ok = True,
       provider = example_db \<rparr>"

definition lakers_question :: string where
  "lakers_question = ''Who won the Lakers game on 2026-01-19?''"

definition example_api :: reddit_api where
  "example_api =
     \<lparr> listing = (\<lambda>_ _ _. Resolved (Some
         ([\<lparr> p_id = Some ''1abcde'', p_title = Some ''Daily thread'', p_author = Some ''mod'',
             p_score = 120, p_upvoteRatio = Some 0.9, p_numComments = 30,
             p_selftext = None \<rparr>], None))),
       thread = (\<lambda>_ _. Resolved None),
       search_listing = (\<lambda>_ _ _. Resolved None) \<rparr>"

definition example_reddit_env :: reddit_env where
  "example_reddit_env =
     \<lparr> r_now0 = example_now, r_now1 = example_now, r_disk_ok = True,
       date_now = 1793701800000, timer_lag = 0, api = example_api \<rparr>"

definition example_world :: reddit_world where
  \<comment> \<open>no stats file yet; the last outbound call was half a second ago\<close>
  "example_world = \<lparr> stats_file = None, last_request = 1793701799500 \<rparr>"

definition wsb_question :: string where
  "wsb_question = ''What'' @ [CHR 0x27] @ ''s hot on r/wallstreetbets?''"

definition the_descriptor :: "config \<Rightarrow> paymentRequired" where
  \<comment> \<open>the payment descriptor \<open>handleOracleRequest\<close> builds for a route\<close>
  "the_descriptor cfg =
     buildPaymentRequired (endpoint_path cfg) ''POST'' (planId cfg) (agentId cfg)"

definition sports_config :: config where
  "sports_config =
     \<lparr> planId = Some ''plan-1'', agentId = Some ''agent-1'',
       endpoint_path = ''/api/verify'', name = ''Sports'' \<rparr>"

definition example_payments :: payments where
  \<comment> \<open>a payment service that accepts one token, cannot be reached for another, and
      whose settlement fails\<close>
  "example_payments =
     \<lparr> verifyPermissions = (\<lambda>_ token _.
         if token = ''good-token'' then Returns True
         else if token = ''offline-token'' then Throws ''connect ECONNREFUSED''
         else Returns False),
       settlePermissions = (\<lambda>_ _ _. Throws ''settlement service unavailable'') \<rparr>"

definition request_with :: "string option \<Rightarrow> body \<Rightarrow> http_request" where
  "request_with token b = \<lparr> payment_signature = token, authorization = None, req_body = b \<rparr>"

section \<open>A call that nothing overlaps\<close>

text \<open>The two halves of a call put together give \<open>askOracle\<close> as the source has it.\<close>

lemma sports_askOracle_whole:
  "sports_askOracle env file q =
     (case sports_checkSafetyLimits (now0 env) file of
        Unsafe why msg \<Rightarrow>
          (Inr (sports_blank\<lparr> verified := False, confidence := 0, error := Some why,
                  message := Some msg, safetyTriggered := True,
                  timestamp := toISOString (now0 env) \<rparr>), file, [])
      | Safe \<Rightarrow>
          (let p0 = sports_parseQuestion (engine env) (now0 env) q;
               p = p0\<lparr> team := map_option normalizeTeamName (team p0),
                        opponent := map_option normalizeTeamName (opponent p0) \<rparr>
           in if \<not> truthy (team p)
              then (let r = could_not_parse_team (now0 env) p
                    in (Inr r, sports_logQuery (now0 env) (disk_ok env) file r, []))
              else (case verifyResult (provider env) (now1 env) p of
                      (Inl e, calls) \<Rightarrow> (Inl e, file, calls)
                    | (Inr r0, calls) \<Rightarrow>
                        (let r = (if verified r0 \<and> 0 < confidence r0
                                  then r0\<lparr> confidence := applyConfidenceFloor (confidence r0) \<rparr>
                                  else r0)
                         in (Inr r, sports_logQuery (now1 env) (disk_ok env) file r, calls)))))"
  by (simp add: sports_askOracle_def sports_start_def sports_finish_def sports_rejection_def
      Let_def split: safety.splits prod.splits sum.splits)

lemma reddit_askOracle_whole:
  "reddit_askOracle env w q =
     (case reddit_checkSafetyLimits (r_now0 env) (stats_file w) of
        Unsafe why msg \<Rightarrow>
          (reddit_blank\<lparr> success := False, confidence := 0, error := Some why,
             message := Some msg, safetyTriggered := True,
             timestamp := toISOString (r_now0 env) \<rparr>, w, [])
      | Safe \<Rightarrow>
          (let p = reddit_parseQuestion q in
           case (if truthy (subreddit p) then subreddit p else None) of
             None \<Rightarrow>
               (let r = parse_failure (r_now0 env) p ''could_not_parse_subreddit''
                          ''Please include a subreddit name (e.g., r/wallstreetbets) in your question''
                in (r, logged env (r_now0 env) w r, []))
           | Some sub \<Rightarrow>
               (case (case qtype p of
                        Some POST \<Rightarrow>
                          (case (if truthy (postId p) then postId p else None) of
                             None \<Rightarrow> Inl (parse_failure (r_now0 env) p ''could_not_parse_post_id''
                                            ''Please include a post ID or Reddit URL'')
                           | Some pid \<Rightarrow>
                               Inr (fetchPost (api env) (date_now env) (timer_lag env)
                                      (last_request w) sub pid, 0.85))
                      | Some SEARCH \<Rightarrow>
                          (case (if truthy (keyword p) then keyword p else None) of
                             None \<Rightarrow> Inl (parse_failure (r_now0 env) p ''could_not_parse_search_keyword''
                                            ''Please include a search term'')
                           | Some kw \<Rightarrow>
                               Inr (searchSubreddit (api env) (date_now env) (timer_lag env)
                                      (last_request w) sub kw (limit p), 0.80))
                      | _ \<Rightarrow>
                          Inr (fetchSubreddit (api env) (date_now env) (timer_lag env)
                                 (last_request w) sub (qtype p) (limit p), 0.85)) of
                  Inl r \<Rightarrow> (r, logged env (r_now0 env) w r, [])
                | Inr ((d, last', evs), conf) \<Rightarrow>
                    (let w' = w\<lparr> last_request := last' \<rparr>;
                         r = (if truthy (d_error d)
                              then reddit_blank\<lparr> success := False, confidence := 0,
                                     error := d_error d, res_subreddit := Some sub,
                                     r_query := Some p, timestamp := toISOString (r_now1 env) \<rparr>
                              else reddit_blank\<lparr> success := True, confidence := conf,
                                     data := Some (with_metrics d), res_subreddit := Some sub,
                                     queryType := qtype p, r_query := Some p,
                                     sources := [''reddit''],
                                     timestamp := toISOString (r_now1 env) \<rparr>)
                     in (r, logged env (r_now1 env) w' r, evs)))))"
  by (simp add: reddit_askOracle_def reddit_start_def reddit_finish_def reddit_wake_def
      reddit_rejection_def Let_def
      split: safety.splits prod.splits sum.splits option.splits query_type.splits)

section \<open>Evaluation on concrete inputs\<close>

lemmas char_classes = digit_def upperAZ_def loweraz_def alnum_def wordc_def space_def
  non_word_before_def non_word_next_def ci_prefix_def foldAZ_def toLowerChar_def toLowerCase_def
  truthy_def trim_def

lemmas sports_parse_eval = sports_parseQuestion_def extract_date_def datePatterns_def
  date_pattern1_def iso_date_at_def resolve_date_def newDate_iso_def valid_iso_date_def
  digits_val_def digit_val_def days_in_month_def extract_teams_def team_at_def team_tail.simps
  non_team_words_def normalizeTeamName_def TEAM_ALIASES_def lakers_question_def

lemmas sports_eval = sports_askOracle_whole plain_askOracle_def verifyResult_def querySportsDB_def
  opponentMatch_def parseInt10_def js_gt_def sports_get_def sports_checkSafetyLimits_def
  sports_loadStats_def sports_logQuery_def saveStats_def increment_def getHours_def
  sports_maxConsecutiveErrors_def sports_maxQueriesPerDay_def applyConfidenceFloor_def
  sports_minConfidenceFloor_def sports_blank_def could_not_parse_team_def
  example_env_def example_db_def example_now_def tripped_sports_def stale_sports_def
  failed_entry_def good_result_def Let_def

lemmas reddit_parse_eval = reddit_parseQuestion_def detect_type_def subredditPatterns_def
  subreddit_pattern1_def subreddit_pattern2_def subreddit_pattern3_def limit_pattern_def
  wsb_question_def

lemmas reddit_eval = reddit_askOracle_whole fetchSubreddit_def enforceRateLimit_def
  requestDelayMs_def reddit_get_def data_blank_def data_failure_def substring500_def
  with_metrics_def round_div_def logged_def reddit_checkSafetyLimits_def reddit_loadStats_def
  reddit_logQuery_def saveStats_def increment_def getHours_def reddit_maxConsecutiveErrors_def
  reddit_maxQueriesPerDay_def reddit_blank_def parse_failure_def example_reddit_env_def
  example_api_def example_world_def example_now_def tripped_reddit_def stale_reddit_def
  failed_reddit_entry_def good_reddit_result_def Let_def

lemma plain_example:
  "\<exists>r evs. plain_askOracle example_env lakers_question = (Inr r, evs)"
  by (simp add: sports_eval sports_parse_eval char_classes)

lemma sports_example:
  "\<exists>r f evs. sports_askOracle example_env None lakers_question = (Inr r, f, evs)"
  by (simp add: sports_eval sports_parse_eval char_classes)

lemma verify_example:
  "\<exists>r evs. verifyResult example_db example_now
      \<lparr> team = Some ''Los Angeles Lakers'', opponent = Some ''Celtics'',
        date = ''2026-01-19'', originalQuestion = lakers_question \<rparr> = (Inr r, evs)"
  by (simp add: sports_eval char_classes)

lemma reddit_example:
  "\<exists>r w evs. reddit_askOracle example_reddit_env example_world wsb_question = (r, w, evs)"
  by (cases "reddit_askOracle example_reddit_env example_world wsb_question") blast

section \<open>The confidence of a result\<close>

lemma verifyResult_rule:
  "verifyResult db now q = (Inr r, evs) \<Longrightarrow> confidence_rule (verified r) (confidence r)"
  by (auto simp: verifyResult_def confidence_rule_def sports_blank_def
      split: prod.splits if_splits option.splits)

lemma plain_rule:
  "plain_askOracle env q = (Inr r, evs) \<Longrightarrow> confidence_rule (verified r) (confidence r)"
  by (auto simp: plain_askOracle_def Let_def could_not_parse_team_def sports_blank_def
      confidence_rule_def dest: verifyResult_rule split: if_splits)

lemma floor_rule:
  "confidence_rule True c \<Longrightarrow> confidence_rule True (applyConfidenceFloor c)"
  by (simp add: confidence_rule_def applyConfidenceFloor_def sports_minConfidenceFloor_def)

lemma sports_rule:
  assumes "sports_askOracle env file q = (Inr r, file', evs)"
  shows "confidence_rule (verified r) (confidence r)"
proof (cases "sports_checkSafetyLimits (now0 env) file")
  case (Unsafe why msg)
  with assms show ?thesis
    by (auto simp: sports_askOracle_whole sports_blank_def confidence_rule_def)
next
  case Safe
  let ?p0 = "sports_parseQuestion (engine env) (now0 env) q"
  let ?p = "?p0\<lparr> team := map_option normalizeTeamName (team ?p0),
                   opponent := map_option normalizeTeamName (opponent ?p0) \<rparr>"
  show ?thesis
  proof (cases "truthy (team ?p)")
    case False
    with assms Safe show ?thesis
      by (auto simp: sports_askOracle_whole Let_def could_not_parse_team_def sports_blank_def
          confidence_rule_def)
  next
    case True
    obtain res calls where v: "verifyResult (provider env) (now1 env) ?p = (res, calls)"
      by (cases "verifyResult (provider env) (now1 env) ?p")
    show ?thesis
    proof (cases res)
      case (Inl e)
      with assms Safe True v show ?thesis
        by (simp add: sports_askOracle_whole Let_def)
    next
      case (Inr r0)
      with v have r0: "confidence_rule (verified r0) (confidence r0)"
        by (simp add: verifyResult_rule)
      have "r = (if verified r0 \<and> 0 < confidence r0
                 then r0\<lparr> confidence := applyConfidenceFloor (confidence r0) \<rparr> else r0)"
        using assms Safe True v Inr by (simp add: sports_askOracle_whole Let_def)
      with r0 show ?thesis
        using floor_rule [of "confidence r0"] by (auto split: if_splits)
    qed
  qed
qed

lemma reddit_rule:
  "reddit_askOracle env w q = (r, w', evs) \<Longrightarrow> confidence_rule (success r) (confidence r)"
  by (auto simp: reddit_askOracle_whole Let_def reddit_blank_def parse_failure_def confidence_rule_def
      split: safety.splits option.splits if_splits sum.splits prod.splits query_type.splits)

text \<open>
  Claim C1. Every result that \<open>verifyResult\<close>, the two sports \<open>askOracle\<close> and the reddit
  \<open>askOracle\<close> return obeys the rule: when the outcome flag (\<open>verified\<close>, \<open>success\<close>) is
  false the confidence is 0, and when it is true the confidence lies between 0.5 and 1.
\<close>

theorem confidence_invariant:
  "(verifyResult db now q1 = (Inr r1, e1) \<longrightarrow> confidence_rule (verified r1) (confidence r1)) \<and>
   (plain_askOracle env2 q2 = (Inr r2, e2) \<longrightarrow> confidence_rule (verified r2) (confidence r2)) \<and>
   (sports_askOracle env3 file q3 = (Inr r3, f3, e3) \<longrightarrow>
      confidence_rule (verified r3) (confidence r3)) \<and>
   (reddit_askOracle env4 w q4 = (r4, w4, e4) \<longrightarrow> confidence_rule (success r4) (confidence r4))"
  by (intro conjI impI;
      (erule verifyResult_rule | erule plain_rule | erule sports_rule | erule reddit_rule))

theorem confidence_invariant_witness:
  "(\<exists>r evs. verifyResult example_db example_now
       \<lparr> team = Some ''Los Angeles Lakers'', opponent = Some ''Celtics'',
         date = ''2026-01-19'', originalQuestion = lakers_question \<rparr> = (Inr r, evs) \<and>
       confidence_rule (verified r) (confidence r)) \<and>
   (\<exists>r evs. plain_askOracle example_env lakers_question = (Inr r, evs) \<and>
       confidence_rule (verified r) (confidence r)) \<and>
   (\<exists>r f evs. sports_askOracle example_env None lakers_question = (Inr r, f, evs) \<and>
       confidence_rule (verified r) (confidence r)) \<and>
   (\<exists>r w evs. reddit_askOracle example_reddit_env example_world wsb_question = (r, w, evs) \<and>
       confidence_rule (success r) (confidence r))"
proof -
  obtain r1 e1 where a: "verifyResult example_db example_now
       \<lparr> team = Some ''Los Angeles Lakers'', opponent = Some ''Celtics'',
         date = ''2026-01-19'', originalQuestion = lakers_question \<rparr> = (Inr r1, e1)"
    using verify_example by blast
  obtain r2 e2 where b: "plain_askOracle example_env lakers_question = (Inr r2, e2)"
    using plain_example by blast
  obtain r3 f3 e3 where c: "sports_askOracle example_env None lakers_question = (Inr r3, f3, e3)"
    using sports_example by blast
  obtain r4 w4 e4 where d:
    "reddit_askOracle example_reddit_env example_world wsb_question = (r4, w4, e4)"
    using reddit_example by blast
  from confidence_invariant [of example_db example_now _ r1 e1 example_env lakers_question r2 e2
      example_env None lakers_question r3 f3 e3 example_reddit_env example_world wsb_question
      r4 w4 e4] a b c d
  show ?thesis by blast
qed

section \<open>The stats store and the safety governor\<close>







lemma all_fail_count:
  "(length (filter P xs) = length xs) = (\<forall>x\<in>set xs. P x)"
proof (induction xs)
  case Nil
  show ?case by simp
next
  case (Cons a xs)
  have "length (filter P xs) \<noteq> Suc (length xs)"
    using length_filter_le [of P xs] by linarith
  with Cons show ?case by simp
qed

lemma sports_tripped_iff:
  "(reason (sports_checkSafetyLimits now file) = Some ''circuit_breaker_tripped'') =
     (5 \<le> length (recentQueries (sports_loadStats now file)) \<and>
      (\<forall>q\<in>set (take 5 (recentQueries (sports_loadStats now file))). \<not> e_verified q))"
proof -
  let ?xs = "recentQueries (sports_loadStats now file)"
  have "5 \<le> length ?xs \<Longrightarrow>
        (length (filter (\<lambda>q. \<not> e_verified q) (take 5 ?xs)) = 5) =
        (\<forall>q\<in>set (take 5 ?xs). \<not> e_verified q)"
    using all_fail_count [of "\<lambda>q. \<not> e_verified q" "take 5 ?xs"] by simp
  then show ?thesis
    by (auto simp: sports_checkSafetyLimits_def reason_def Let_def sports_maxConsecutiveErrors_def)
qed

lemma sports_check_file:
  "sports_checkSafetyLimits now None = Safe"
  "sports_checkSafetyLimits now (Some st) = sports_checkSafetyLimits now' (Some st)"
  by (simp_all add: sports_checkSafetyLimits_def sports_loadStats_def Let_def
      sports_maxConsecutiveErrors_def sports_maxQueriesPerDay_def)

lemma sports_unsafe_any_time:
  "\<not> is_safe (sports_checkSafetyLimits now file) \<Longrightarrow>
   sports_checkSafetyLimits now' file = sports_checkSafetyLimits now file"
  by (cases "file") (simp_all add: sports_check_file(1) is_safe_def sports_check_file(2) [of now'])

lemma sports_rejected:
  "sports_checkSafetyLimits (now0 env) file = Unsafe why msg \<Longrightarrow>
   sports_askOracle env file q =
     (Inr (sports_blank\<lparr> verified := False, confidence := 0, error := Some why,
             message := Some msg, safetyTriggered := True,
             timestamp := toISOString (now0 env) \<rparr>), file, [])"
  by (simp add: sports_askOracle_whole)

lemma sports_rejected_answer:
  assumes "\<not> is_safe (sports_checkSafetyLimits (now0 env) file)"
  shows "\<exists>r. sports_askOracle env file q = (Inr r, file, []) \<and> safetyTriggered r \<and>
             \<not> verified r \<and> error r = reason (sports_checkSafetyLimits (now0 env) file)"
proof -
  from assms obtain why msg where u: "sports_checkSafetyLimits (now0 env) file = Unsafe why msg"
    by (cases "sports_checkSafetyLimits (now0 env) file") (simp_all add: is_safe_def)
  show ?thesis
    by (simp add: sports_rejected [OF u] u reason_def sports_blank_def)
qed

lemma sports_start_rejected:
  assumes "\<not> is_safe (sports_checkSafetyLimits (now0 env) file)"
  shows "\<exists>r. sports_start env file q = (Returned r, file) \<and> safetyTriggered r \<and> \<not> verified r"
proof -
  from assms obtain why msg where u: "sports_checkSafetyLimits (now0 env) file = Unsafe why msg"
    by (cases "sports_checkSafetyLimits (now0 env) file") (simp_all add: is_safe_def)
  show ?thesis
    by (simp add: sports_start_def u sports_rejection_def sports_blank_def)
qed

lemma sports_do_rejected:
  assumes "\<not> is_safe (sports_checkSafetyLimits now file)"
  shows "sports_do step (file, []) = (file, [])"
proof (cases step)
  case (Begin env q)
  have "\<not> is_safe (sports_checkSafetyLimits (now0 env) file)"
    using sports_unsafe_any_time [OF assms, of "now0 env"] assms by simp
  then obtain r where "sports_start env file q = (Returned r, file)"
    using sports_start_rejected by blast
  with Begin show ?thesis by simp
next
  case (Complete i)
  then show ?thesis by simp
qed

lemma sports_schedule_rejected:
  "\<not> is_safe (sports_checkSafetyLimits now file) \<Longrightarrow>
   sports_schedule steps (file, []) = (file, [])"
  by (induction steps) (simp_all add: sports_do_rejected)

lemma sports_logQuery_head:
  "\<exists>s'. sports_logQuery now True file r = Some s' \<and>
        (\<exists>e es. recentQueries s' = e # es \<and> e_verified e = verified r) \<and>
        todayQueries s' = (if lastReset (sports_loadStats now file) \<noteq> toDateString now then 1
                           else todayQueries (sports_loadStats now file) + 1)"
  by (simp add: sports_logQuery_def saveStats_def Let_def)

lemma sports_after_success:
  assumes "verified r"
  shows "reason (sports_checkSafetyLimits now' (sports_logQuery now True file r))
           \<noteq> Some ''circuit_breaker_tripped''"
    and "is_safe (sports_checkSafetyLimits now' (sports_logQuery now True file r)) =
           ((if lastReset (sports_loadStats now file) \<noteq> toDateString now then 1
             else todayQueries (sports_loadStats now file) + 1) < sports_maxQueriesPerDay)"
proof -
  obtain s' e es where s': "sports_logQuery now True file r = Some s'"
    and head: "recentQueries s' = e # es" "e_verified e"
    and today: "todayQueries s' = (if lastReset (sports_loadStats now file) \<noteq> toDateString now
                  then 1 else todayQueries (sports_loadStats now file) + 1)"
    using sports_logQuery_head [of now "file" r] assms by auto
  have load: "sports_loadStats now' (Some s') = s'"
    by (simp add: sports_loadStats_def)
  show "reason (sports_checkSafetyLimits now' (sports_logQuery now True file r))
           \<noteq> Some ''circuit_breaker_tripped''"
    using head by (simp add: s' sports_tripped_iff load)
  then have "sports_checkSafetyLimits now' (Some s') =
      (if sports_maxQueriesPerDay \<le> todayQueries s'
       then Unsafe ''daily_limit_reached'' ''Daily query limit (1000) reached.'' else Safe)"
    by (simp add: s' sports_checkSafetyLimits_def Let_def load reason_def split: if_splits)
  then show "is_safe (sports_checkSafetyLimits now' (sports_logQuery now True file r)) =
           ((if lastReset (sports_loadStats now file) \<noteq> toDateString now then 1
             else todayQueries (sports_loadStats now file) + 1) < sports_maxQueriesPerDay)"
    by (simp add: s' today is_safe_def not_le [symmetric] del: not_le)
qed

lemma reddit_tripped_iff:
  "(reason (reddit_checkSafetyLimits now file) = Some ''circuit_breaker_tripped'') =
     (5 \<le> length (recentQueries (reddit_loadStats now file)) \<and>
      (\<forall>q\<in>set (take 5 (recentQueries (reddit_loadStats now file))). \<not> re_success q))"
proof -
  let ?xs = "recentQueries (reddit_loadStats now file)"
  have "5 \<le> length ?xs \<Longrightarrow>
        (length (filter (\<lambda>q. \<not> re_success q) (take 5 ?xs)) = 5) =
        (\<forall>q\<in>set (take 5 ?xs). \<not> re_success q)"
    using all_fail_count [of "\<lambda>q. \<not> re_success q" "take 5 ?xs"] by simp
  then show ?thesis
    by (auto simp: reddit_checkSafetyLimits_def reason_def Let_def reddit_maxConsecutiveErrors_def)
qed

lemma reddit_check_file:
  "reddit_checkSafetyLimits now None = Safe"
  "reddit_checkSafetyLimits now (Some st) = reddit_checkSafetyLimits now' (Some st)"
  by (simp_all add: reddit_checkSafetyLimits_def reddit_loadStats_def Let_def
      reddit_maxConsecutiveErrors_def reddit_maxQueriesPerDay_def)

lemma reddit_unsafe_any_time:
  "\<not> is_safe (reddit_checkSafetyLimits now file) \<Longrightarrow>
   reddit_checkSafetyLimits now' file = reddit_checkSafetyLimits now file"
  by (cases "file") (simp_all add: reddit_check_file(1) is_safe_def reddit_check_file(2) [of now'])

lemma reddit_rejected:
  "reddit_checkSafetyLimits (r_now0 env) (stats_file w) = Unsafe why msg \<Longrightarrow>
   reddit_askOracle env w q =
     (reddit_blank\<lparr> success := False, confidence := 0, error := Some why,
        message := Some msg, safetyTriggered := True,
        timestamp := toISOString (r_now0 env) \<rparr>, w, [])"
  by (simp add: reddit_askOracle_whole)

lemma reddit_rejected_answer:
  assumes "\<not> is_safe (reddit_checkSafetyLimits (r_now0 env) (stats_file w))"
  shows "\<exists>r. reddit_askOracle env w q = (r, w, []) \<and> safetyTriggered r \<and>
             \<not> success r \<and> error r = reason (reddit_checkSafetyLimits (r_now0 env) (stats_file w))"
proof -
  from assms obtain why msg
    where u: "reddit_checkSafetyLimits (r_now0 env) (stats_file w) = Unsafe why msg"
    by (cases "reddit_checkSafetyLimits (r_now0 env) (stats_file w)") (simp_all add: is_safe_def)
  show ?thesis
    by (simp add: reddit_rejected [OF u] u reason_def reddit_blank_def)
qed

lemma reddit_start_rejected:
  assumes "\<not> is_safe (reddit_checkSafetyLimits (r_now0 env) (stats_file w))"
  shows "\<exists>r. reddit_start env w q = (Returned r, w) \<and> safetyTriggered r \<and> \<not> success r"
proof -
  from assms obtain why msg
    where u: "reddit_checkSafetyLimits (r_now0 env) (stats_file w) = Unsafe why msg"
    by (cases "reddit_checkSafetyLimits (r_now0 env) (stats_file w)") (simp_all add: is_safe_def)
  show ?thesis
    by (simp add: reddit_start_def u reddit_rejection_def reddit_blank_def)
qed

lemma reddit_do_rejected:
  assumes "\<not> is_safe (reddit_checkSafetyLimits now (stats_file w))"
  shows "reddit_do step (w, []) = (w, [])"
proof (cases step)
  case (RBegin env q)
  have "\<not> is_safe (reddit_checkSafetyLimits (r_now0 env) (stats_file w))"
    using reddit_unsafe_any_time [OF assms, of "r_now0 env"] assms by simp
  then obtain r where "reddit_start env w q = (Returned r, w)"
    using reddit_start_rejected by blast
  with RBegin show ?thesis by simp
next
  case (RWake i)
  then show ?thesis by simp
next
  case (RComplete i)
  then show ?thesis by simp
qed

lemma reddit_schedule_rejected:
  "\<not> is_safe (reddit_checkSafetyLimits now (stats_file w)) \<Longrightarrow>
   reddit_schedule steps (w, []) = (w, [])"
  by (induction steps) (simp_all add: reddit_do_rejected)

lemma reddit_logQuery_head:
  "\<exists>s'. reddit_logQuery now True file r = Some s' \<and>
        (\<exists>e es. recentQueries s' = e # es \<and> re_success e = success r) \<and>
        todayQueries s' = (if lastReset (reddit_loadStats now file) \<noteq> toDateString now then 1
                           else todayQueries (reddit_loadStats now file) + 1)"
  by (simp add: reddit_logQuery_def saveStats_def Let_def)

lemma reddit_after_success:
  assumes "success r"
  shows "reason (reddit_checkSafetyLimits now' (reddit_logQuery now True file r))
           \<noteq> Some ''circuit_breaker_tripped''"
    and "is_safe (reddit_checkSafetyLimits now' (reddit_logQuery now True file r)) =
           ((if lastReset (reddit_loadStats now file) \<noteq> toDateString now then 1
             else todayQueries (reddit_loadStats now file) + 1) < reddit_maxQueriesPerDay)"
proof -
  obtain s' e es where s': "reddit_logQuery now True file r = Some s'"
    and head: "recentQueries s' = e # es" "re_success e"
    and today: "todayQueries s' = (if lastReset (reddit_loadStats now file) \<noteq> toDateString now
                  then 1 else todayQueries (reddit_loadStats now file) + 1)"
    using reddit_logQuery_head [of now "file" r] assms by auto
  have load: "reddit_loadStats now' (Some s') = s'"
    by (simp add: reddit_loadStats_def)
  show "reason (reddit_checkSafetyLimits now' (reddit_logQuery now True file r))
           \<noteq> Some ''circuit_breaker_tripped''"
    using head by (simp add: s' reddit_tripped_iff load)
  then have "reddit_checkSafetyLimits now' (Some s') =
      (if reddit_maxQueriesPerDay \<le> todayQueries s'
       then Unsafe ''daily_limit_reached'' ''Daily query limit (500) reached.'' else Safe)"
    by (simp add: s' reddit_checkSafetyLimits_def Let_def load reason_def split: if_splits)
  then show "is_safe (reddit_checkSafetyLimits now' (reddit_logQuery now True file r)) =
           ((if lastReset (reddit_loadStats now file) \<noteq> toDateString now then 1
             else todayQueries (reddit_loadStats now file) + 1) < reddit_maxQueriesPerDay)"
    by (simp add: s' today is_safe_def not_le [symmetric] del: not_le)
qed

lemma tripped_unsafe:
  "reason c = Some why \<Longrightarrow> \<not> is_safe c"
  by (cases c) (simp_all add: reason_def is_safe_def)

text \<open>
  Claim C2, as amended. For every stats state of either module: the pre-check reports
  \<open>circuit_breaker_tripped\<close> exactly when the log holds at least 5 entries and the 5
  most recent are all failures; when it does, \<open>askOracle\<close> answers with the safety error,
  leaves the stats file alone and makes no outbound call; and once a success has been
  recorded at the head of the log the next pre-check no longer reports the breaker, and
  it passes exactly when the day's count, the new entry included, is below the daily limit.
\<close>

theorem breaker_precheck:
  "((reason (sports_checkSafetyLimits now sfile) = Some ''circuit_breaker_tripped'') =
      (5 \<le> length (recentQueries (sports_loadStats now sfile)) \<and>
       (\<forall>e\<in>set (take 5 (recentQueries (sports_loadStats now sfile))). \<not> e_verified e))) \<and>
   (reason (sports_checkSafetyLimits (now0 env) sfile) = Some ''circuit_breaker_tripped'' \<longrightarrow>
      (\<exists>r. sports_askOracle env sfile q = (Inr r, sfile, []) \<and> safetyTriggered r \<and>
           \<not> verified r \<and> error r = Some ''circuit_breaker_tripped'')) \<and>
   (verified res \<longrightarrow>
      reason (sports_checkSafetyLimits now' (sports_logQuery now True sfile res))
        \<noteq> Some ''circuit_breaker_tripped'' \<and>
      is_safe (sports_checkSafetyLimits now' (sports_logQuery now True sfile res)) =
        ((if lastReset (sports_loadStats now sfile) \<noteq> toDateString now then 1
          else todayQueries (sports_loadStats now sfile) + 1) < sports_maxQueriesPerDay)) \<and>
   ((reason (reddit_checkSafetyLimits now rfile) = Some ''circuit_breaker_tripped'') =
      (5 \<le> length (recentQueries (reddit_loadStats now rfile)) \<and>
       (\<forall>e\<in>set (take 5 (recentQueries (reddit_loadStats now rfile))). \<not> re_success e))) \<and>
   (reason (reddit_checkSafetyLimits (r_now0 renv) (stats_file w)) = Some ''circuit_breaker_tripped'' \<longrightarrow>
      (\<exists>r. reddit_askOracle renv w rq = (r, w, []) \<and> safetyTriggered r \<and>
           \<not> success r \<and> error r = Some ''circuit_breaker_tripped'')) \<and>
   (success rres \<longrightarrow>
      reason (reddit_checkSafetyLimits now' (reddit_logQuery now True rfile rres))
        \<noteq> Some ''circuit_breaker_tripped'' \<and>
      is_safe (reddit_checkSafetyLimits now' (reddit_logQuery now True rfile rres)) =
        ((if lastReset (reddit_loadStats now rfile) \<noteq> toDateString now then 1
          else todayQueries (reddit_loadStats now rfile) + 1) < reddit_maxQueriesPerDay))"
proof (intro conjI impI)
  show "(reason (sports_checkSafetyLimits now sfile) = Some ''circuit_breaker_tripped'') =
      (5 \<le> length (recentQueries (sports_loadStats now sfile)) \<and>
       (\<forall>e\<in>set (take 5 (recentQueries (sports_loadStats now sfile))). \<not> e_verified e))"
    by (rule sports_tripped_iff)
  show "(reason (reddit_checkSafetyLimits now rfile) = Some ''circuit_breaker_tripped'') =
      (5 \<le> length (recentQueries (reddit_loadStats now rfile)) \<and>
       (\<forall>e\<in>set (take 5 (recentQueries (reddit_loadStats now rfile))). \<not> re_success e))"
    by (rule reddit_tripped_iff)
next
  assume t: "reason (sports_checkSafetyLimits (now0 env) sfile) = Some ''circuit_breaker_tripped''"
  show "\<exists>r. sports_askOracle env sfile q = (Inr r, sfile, []) \<and> safetyTriggered r \<and>
           \<not> verified r \<and> error r = Some ''circuit_breaker_tripped''"
    using sports_rejected_answer [OF tripped_unsafe [OF t], of q] t by simp
next
  assume t: "reason (reddit_checkSafetyLimits (r_now0 renv) (stats_file w)) =
    Some ''circuit_breaker_tripped''"
  show "\<exists>r. reddit_askOracle renv w rq = (r, w, []) \<and> safetyTriggered r \<and>
           \<not> success r \<and> error r = Some ''circuit_breaker_tripped''"
    using reddit_rejected_answer [OF tripped_unsafe [OF t], of rq] t by simp
next
  assume v: "verified res"
  show "reason (sports_checkSafetyLimits now' (sports_logQuery now True sfile res))
        \<noteq> Some ''circuit_breaker_tripped''"
    by (rule sports_after_success(1) [OF v])
  show "is_safe (sports_checkSafetyLimits now' (sports_logQuery now True sfile res)) =
        ((if lastReset (sports_loadStats now sfile) \<noteq> toDateString now then 1
          else todayQueries (sports_loadStats now sfile) + 1) < sports_maxQueriesPerDay)"
    by (rule sports_after_success(2) [OF v])
next
  assume v: "success rres"
  show "reason (reddit_checkSafetyLimits now' (reddit_logQuery now True rfile rres))
        \<noteq> Some ''circuit_breaker_tripped''"
    by (rule reddit_after_success(1) [OF v])
  show "is_safe (reddit_checkSafetyLimits now' (reddit_logQuery now True rfile rres)) =
        ((if lastReset (reddit_loadStats now rfile) \<noteq> toDateString now then 1
          else todayQueries (reddit_loadStats now rfile) + 1) < reddit_maxQueriesPerDay)"
    by (rule reddit_after_success(2) [OF v])
qed

lemma tripped_examples:
  "reason (sports_checkSafetyLimits example_now (Some tripped_sports)) = Some ''circuit_breaker_tripped''"
  "reason (reddit_checkSafetyLimits example_now (Some tripped_reddit)) = Some ''circuit_breaker_tripped''"
  "verified good_result" "success good_reddit_result"
  by (simp_all add: sports_eval reddit_eval reason_def)

theorem breaker_precheck_witness:
  "reason (sports_checkSafetyLimits (now0 example_env) (Some tripped_sports)) =
     Some ''circuit_breaker_tripped'' \<and>
   (\<exists>r. sports_askOracle example_env (Some tripped_sports) lakers_question =
          (Inr r, Some tripped_sports, []) \<and> safetyTriggered r \<and>
        \<not> verified r \<and> error r = Some ''circuit_breaker_tripped'') \<and>
   verified good_result \<and>
   is_safe (sports_checkSafetyLimits example_now
     (sports_logQuery example_now True (Some stale_sports) good_result)) \<and>
   reason (reddit_checkSafetyLimits (r_now0 example_reddit_env)
     (stats_file (example_world\<lparr> stats_file := Some tripped_reddit \<rparr>))) =
     Some ''circuit_breaker_tripped'' \<and>
   (\<exists>r. reddit_askOracle example_reddit_env (example_world\<lparr> stats_file := Some tripped_reddit \<rparr>)
          wsb_question = (r, example_world\<lparr> stats_file := Some tripped_reddit \<rparr>, []) \<and>
        safetyTriggered r \<and> \<not> success r \<and> error r = Some ''circuit_breaker_tripped'') \<and>
   success good_reddit_result \<and>
   is_safe (reddit_checkSafetyLimits example_now
     (reddit_logQuery example_now True (Some stale_reddit) good_reddit_result))"
proof -
  have a: "reason (sports_checkSafetyLimits (now0 example_env) (Some tripped_sports)) =
     Some ''circuit_breaker_tripped''"
    using tripped_examples(1) by (simp add: example_env_def)
  have b: "reason (reddit_checkSafetyLimits (r_now0 example_reddit_env)
     (stats_file (example_world\<lparr> stats_file := Some tripped_reddit \<rparr>))) =
     Some ''circuit_breaker_tripped''"
    using tripped_examples(2) by (simp add: example_reddit_env_def)
  have c: "(if lastReset (sports_loadStats example_now (Some stale_sports)) \<noteq> toDateString example_now
            then 1 else todayQueries (sports_loadStats example_now (Some stale_sports)) + 1)
           < sports_maxQueriesPerDay"
    by (simp add: sports_loadStats_def stale_sports_def example_now_def sports_maxQueriesPerDay_def)
  have d: "(if lastReset (reddit_loadStats example_now (Some stale_reddit)) \<noteq> toDateString example_now
            then 1 else todayQueries (reddit_loadStats example_now (Some stale_reddit)) + 1)
           < reddit_maxQueriesPerDay"
    by (simp add: reddit_loadStats_def stale_reddit_def example_now_def reddit_maxQueriesPerDay_def)
  note t = breaker_precheck [where env = example_env and sfile = "Some tripped_sports"
      and q = lakers_question and renv = example_reddit_env
      and w = "example_world\<lparr> stats_file := Some tripped_reddit \<rparr>" and rq = wsb_question]
  note u = breaker_precheck [where now = example_now and now' = example_now
      and sfile = "Some stale_sports" and res = good_result
      and rfile = "Some stale_reddit" and rres = good_reddit_result]
  have t1: "\<exists>r. sports_askOracle example_env (Some tripped_sports) lakers_question =
          (Inr r, Some tripped_sports, []) \<and> safetyTriggered r \<and>
        \<not> verified r \<and> error r = Some ''circuit_breaker_tripped''"
    by (rule t [THEN conjunct2, THEN conjunct1, THEN mp, OF a])
  have t2: "\<exists>r. reddit_askOracle example_reddit_env
          (example_world\<lparr> stats_file := Some tripped_reddit \<rparr>) wsb_question =
          (r, example_world\<lparr> stats_file := Some tripped_reddit \<rparr>, []) \<and>
        safetyTriggered r \<and> \<not> success r \<and> error r = Some ''circuit_breaker_tripped''"
    by (rule t [THEN conjunct2, THEN conjunct2, THEN conjunct2, THEN conjunct2, THEN conjunct1,
          THEN mp, OF b])
  have u1: "is_safe (sports_checkSafetyLimits example_now
     (sports_logQuery example_now True (Some stale_sports) good_result))"
    using u [THEN conjunct2, THEN conjunct2, THEN conjunct1, THEN mp, OF tripped_examples(3),
        THEN conjunct2] c by (rule iffD2)
  have u2: "is_safe (reddit_checkSafetyLimits example_now
     (reddit_logQuery example_now True (Some stale_reddit) good_reddit_result))"
    using u [THEN conjunct2, THEN conjunct2, THEN conjunct2, THEN conjunct2, THEN conjunct2,
        THEN mp, OF tripped_examples(4), THEN conjunct2] d by (rule iffD2)
  show ?thesis
    by (intro conjI a b t1 t2 u1 u2 tripped_examples(3) tripped_examples(4))
qed

text \<open>
  The claim as it stands says that the next pre-check passes after one recorded success.
  With five failures at the head of the log and 999 queries already counted today, the
  recorded success is the 1000th query of the day and the next pre-check rejects with
  \<open>daily_limit_reached\<close>.
\<close>

theorem breaker_recovery_counterexample:
  "reason (sports_checkSafetyLimits example_now (Some tripped_sports)) =
     Some ''circuit_breaker_tripped'' \<and>
   verified good_result \<and>
   sports_checkSafetyLimits example_now
     (sports_logQuery example_now True (Some tripped_sports) good_result) =
     Unsafe ''daily_limit_reached'' ''Daily query limit (1000) reached.''"
  by (simp add: sports_eval reason_def)

text \<open>
  Claim C10, as amended. When the pre-check rejects (breaker tripped or daily limit
  reached), \<open>askOracle\<close> returns the safety error at once, the stats file stays as it
  was and no outbound call is made. So once the breaker is tripped and no call is in
  flight, every sequence of steps of \<open>askOracle\<close> calls, overlapping or not, leaves the
  stats file unchanged, no call in flight, and the breaker tripped. This holds for the
  sports and for the reddit module.
\<close>

theorem rejection_records_nothing:
  "(\<not> is_safe (sports_checkSafetyLimits (now0 env) sfile) \<longrightarrow>
      (\<exists>r. sports_askOracle env sfile q = (Inr r, sfile, []) \<and> safetyTriggered r \<and> \<not> verified r \<and>
           error r = reason (sports_checkSafetyLimits (now0 env) sfile)) \<and>
      (\<exists>r. sports_start env sfile q = (Returned r, sfile) \<and> safetyTriggered r \<and> \<not> verified r)) \<and>
   (reason (sports_checkSafetyLimits now sfile) = Some ''circuit_breaker_tripped'' \<longrightarrow>
      sports_schedule steps (sfile, []) = (sfile, []) \<and>
      reason (sports_checkSafetyLimits now' (fst (sports_schedule steps (sfile, [])))) =
        Some ''circuit_breaker_tripped'') \<and>
   (\<not> is_safe (reddit_checkSafetyLimits (r_now0 renv) (stats_file w)) \<longrightarrow>
      (\<exists>r. reddit_askOracle renv w rq = (r, w, []) \<and> safetyTriggered r \<and> \<not> success r \<and>
           error r = reason (reddit_checkSafetyLimits (r_now0 renv) (stats_file w))) \<and>
      (\<exists>r. reddit_start renv w rq = (Returned r, w) \<and> safetyTriggered r \<and> \<not> success r)) \<and>
   (reason (reddit_checkSafetyLimits now (stats_file w)) = Some ''circuit_breaker_tripped'' \<longrightarrow>
      reddit_schedule rsteps (w, []) = (w, []) \<and>
      reason (reddit_checkSafetyLimits now' (stats_file (fst (reddit_schedule rsteps (w, []))))) =
        Some ''circuit_breaker_tripped'')"
proof (intro conjI impI)
  assume u: "\<not> is_safe (sports_checkSafetyLimits (now0 env) sfile)"
  show "\<exists>r. sports_askOracle env sfile q = (Inr r, sfile, []) \<and> safetyTriggered r \<and>
      \<not> verified r \<and> error r = reason (sports_checkSafetyLimits (now0 env) sfile)"
    using u by (rule sports_rejected_answer)
  show "\<exists>r. sports_start env sfile q = (Returned r, sfile) \<and> safetyTriggered r \<and> \<not> verified r"
    using u by (rule sports_start_rejected)
next
  assume u: "\<not> is_safe (reddit_checkSafetyLimits (r_now0 renv) (stats_file w))"
  show "\<exists>r. reddit_askOracle renv w rq = (r, w, []) \<and> safetyTriggered r \<and> \<not> success r \<and>
      error r = reason (reddit_checkSafetyLimits (r_now0 renv) (stats_file w))"
    using u by (rule reddit_rejected_answer)
  show "\<exists>r. reddit_start renv w rq = (Returned r, w) \<and> safetyTriggered r \<and> \<not> success r"
    using u by (rule reddit_start_rejected)
next
  assume t: "reason (sports_checkSafetyLimits now sfile) = Some ''circuit_breaker_tripped''"
  show same: "sports_schedule steps (sfile, []) = (sfile, [])"
    by (rule sports_schedule_rejected [OF tripped_unsafe [OF t]])
  show "reason (sports_checkSafetyLimits now' (fst (sports_schedule steps (sfile, [])))) =
      Some ''circuit_breaker_tripped''"
    using sports_unsafe_any_time [OF tripped_unsafe [OF t], of now'] t by (simp add: same)
next
  assume t: "reason (reddit_checkSafetyLimits now (stats_file w)) = Some ''circuit_breaker_tripped''"
  show same: "reddit_schedule rsteps (w, []) = (w, [])"
    by (rule reddit_schedule_rejected [OF tripped_unsafe [OF t]])
  show "reason (reddit_checkSafetyLimits now' (stats_file (fst (reddit_schedule rsteps (w, []))))) =
      Some ''circuit_breaker_tripped''"
    using reddit_unsafe_any_time [OF tripped_unsafe [OF t], of now'] t by (simp add: same)
qed

theorem rejection_records_nothing_witness:
  "\<not> is_safe (sports_checkSafetyLimits (now0 example_env) (Some tripped_sports)) \<and>
   (\<exists>r. sports_askOracle example_env (Some tripped_sports) lakers_question =
          (Inr r, Some tripped_sports, []) \<and> safetyTriggered r \<and> \<not> verified r \<and>
        error r = reason (sports_checkSafetyLimits (now0 example_env) (Some tripped_sports))) \<and>
   sports_schedule [Begin example_env lakers_question, Complete 0,
       Begin example_env ''Did the Celtics win yesterday?'', Begin example_env lakers_question]
     (Some tripped_sports, []) = (Some tripped_sports, []) \<and>
   \<not> is_safe (reddit_checkSafetyLimits (r_now0 example_reddit_env)
     (stats_file (example_world\<lparr> stats_file := Some tripped_reddit \<rparr>))) \<and>
   (\<exists>r. reddit_askOracle example_reddit_env (example_world\<lparr> stats_file := Some tripped_reddit \<rparr>)
          wsb_question = (r, example_world\<lparr> stats_file := Some tripped_reddit \<rparr>, []) \<and>
        safetyTriggered r \<and> \<not> success r \<and>
        error r = reason (reddit_checkSafetyLimits (r_now0 example_reddit_env)
          (stats_file (example_world\<lparr> stats_file := Some tripped_reddit \<rparr>)))) \<and>
   reddit_schedule [RBegin example_reddit_env wsb_question, RWake 0, RComplete 0,
       RBegin example_reddit_env ''top posts in r/pics'']
     (example_world\<lparr> stats_file := Some tripped_reddit \<rparr>, []) =
     (example_world\<lparr> stats_file := Some tripped_reddit \<rparr>, [])"
proof -
  have a: "reason (sports_checkSafetyLimits (now0 example_env) (Some tripped_sports)) =
     Some ''circuit_breaker_tripped''"
    using tripped_examples(1) by (simp add: example_env_def)
  have b: "reason (reddit_checkSafetyLimits (r_now0 example_reddit_env)
     (stats_file (example_world\<lparr> stats_file := Some tripped_reddit \<rparr>))) =
     Some ''circuit_breaker_tripped''"
    using tripped_examples(2) by (simp add: example_reddit_env_def)
  have b2: "reason (reddit_checkSafetyLimits example_now
     (stats_file (example_world\<lparr> stats_file := Some tripped_reddit \<rparr>))) =
     Some ''circuit_breaker_tripped''"
    using tripped_examples(2) by simp
  note t = rejection_records_nothing [where env = example_env and sfile = "Some tripped_sports"
      and q = lakers_question and now = example_now
      and steps = "[Begin example_env lakers_question, Complete 0,
         Begin example_env ''Did the Celtics win yesterday?'', Begin example_env lakers_question]"
      and renv = example_reddit_env
      and w = "example_world\<lparr> stats_file := Some tripped_reddit \<rparr>" and rq = wsb_question
      and rsteps = "[RBegin example_reddit_env wsb_question, RWake 0, RComplete 0,
         RBegin example_reddit_env ''top posts in r/pics'']"]
  show ?thesis
    by (intro conjI tripped_unsafe [OF a] tripped_unsafe [OF b]
        t [THEN conjunct1, THEN mp, OF tripped_unsafe [OF a], THEN conjunct1]
        t [THEN conjunct2, THEN conjunct1, THEN mp, OF tripped_examples(1), THEN conjunct1]
        t [THEN conjunct2, THEN conjunct2, THEN conjunct1, THEN mp, OF tripped_unsafe [OF b],
           THEN conjunct1]
        t [THEN conjunct2, THEN conjunct2, THEN conjunct2, THEN mp, OF b2, THEN conjunct1])
qed

section \<open>The payment gate\<close>

lemma handler_no_token:
  "\<not> truthy (x402Token req) \<Longrightarrow>
   \<exists>b. handleOracleRequest pay now oracle cfg req w = (Inr (402, ErrorJSON b), w, []) \<and>
       eb_error b = ''payment_required'' \<and> eb_planId b = planId cfg \<and> eb_agentId b = agentId cfg \<and>
       pricePerQuery b = Some ''$0.05'' \<and> purchaseUrl b = Some (purchase_url (agentId cfg))"
  by (simp add: handleOracleRequest_def error_blank_def)

lemma handler_bad_body:
  assumes "truthy (x402Token req)"
    and "req_body req = InvalidJSON \<or> (\<exists>b. req_body req = Body b \<and> \<not> truthy_value b)"
  shows "\<exists>b. handleOracleRequest pay now oracle cfg req w = (Inr (400, ErrorJSON b), w, []) \<and>
             purchaseUrl b = None"
  using assms
  by (auto simp: handleOracleRequest_def error_blank_def truthy_def split: option.splits)

lemma handler_null_body:
  assumes "truthy (x402Token req)" "req_body req = NullBody"
  shows "handleOracleRequest pay now oracle cfg req w = (Inl null_body_error, w, [])"
  using assms
  by (auto simp: handleOracleRequest_def truthy_def split: option.splits)

lemma handler_not_verified:
  assumes "x402Token req = Some token" "token \<noteq> []" "req_body req = Body (Some q)"
    and "truthy_value (Some q)"
    and "verifyPermissions pay (the_descriptor cfg) token 1 \<noteq> Returns True"
  shows "\<exists>b. handleOracleRequest pay now oracle cfg req w =
             (Inr (401, ErrorJSON b), w, [VerifyPermissions (the_descriptor cfg) token 1]) \<and>
           purchaseUrl b = Some (purchase_url (agentId cfg)) \<and>
           eb_error b = (case verifyPermissions pay (the_descriptor cfg) token 1 of
                           Throws _ \<Rightarrow> ''verification_failed''
                         | Returns _ \<Rightarrow> ''insufficient_credits'')"
proof (cases "verifyPermissions pay (the_descriptor cfg) token 1")
  case (Throws m)
  with assms show ?thesis
    by (simp add: handleOracleRequest_def error_blank_def truthy_def the_descriptor_def Let_def)
next
  case (Returns ok)
  with assms have "verifyPermissions pay (the_descriptor cfg) token 1 = Returns False" by simp
  with assms show ?thesis
    by (simp add: handleOracleRequest_def error_blank_def truthy_def the_descriptor_def Let_def)
qed

lemma handler_verified:
  assumes "x402Token req = Some token" "token \<noteq> []" "req_body req = Body (Some q)"
    and "truthy_value (Some q)" "printable q"
    and "verifyPermissions pay (the_descriptor cfg) token 1 = Returns True"
  shows "handleOracleRequest pay now oracle cfg req w =
     (case oracle q w of
        (Inl m, w', evs) \<Rightarrow>
          (Inr (500, ErrorJSON (error_blank\<lparr> eb_error := ''oracle_error'',
              eb_message := ''Failed to process query'', details := Some m \<rparr>)), w',
           VerifyPermissions (the_descriptor cfg) token 1 # AskOracle q # map Adapter evs)
      | (Inr r, w', evs) \<Rightarrow>
          (Inr (200, ResultJSON
             (case settlePermissions pay (the_descriptor cfg) token 1 of
                Returns tx \<Rightarrow>
                  r\<lparr> payment := Some \<lparr> creditsUsed = 1, txHash = tx,
                    pay_timestamp = Some (toISOString now), pay_error = None, pay_message = None \<rparr> \<rparr>
              | Throws m \<Rightarrow>
                  r\<lparr> payment := Some \<lparr> creditsUsed = 0, txHash = None, pay_timestamp = None,
                    pay_error = Some ''settlement_failed'', pay_message = Some m \<rparr> \<rparr>)), w',
           VerifyPermissions (the_descriptor cfg) token 1 # AskOracle q # map Adapter evs @
             [SettlePermissions (the_descriptor cfg) token 1]))"
  using assms
  by (simp add: handleOracleRequest_def truthy_def the_descriptor_def Let_def
      split: prod.splits sum.splits outcome.splits)

lemma handler_unprintable:
  assumes "x402Token req = Some token" "token \<noteq> []" "req_body req = Body (Some q)"
    and "truthy_value (Some q)" "\<not> printable q"
    and "verifyPermissions pay (the_descriptor cfg) token 1 = Returns True"
  shows "handleOracleRequest pay now oracle cfg req w =
     (Inl not_printable_error, w, [VerifyPermissions (the_descriptor cfg) token 1])"
  using assms
  by (simp add: handleOracleRequest_def truthy_def the_descriptor_def Let_def)

lemma no_settle_in_adapter: "filter is_settle (map Adapter evs) = []"
  by (induction evs) (simp_all add: is_settle_def)

lemma oracle_needs_verification:
  assumes "filter is_oracle_event (snd (snd (handleOracleRequest pay now oracle cfg req w))) \<noteq> []"
  shows "\<exists>token rest. x402Token req = Some token \<and>
           verifyPermissions pay (the_descriptor cfg) token 1 = Returns True \<and>
           snd (snd (handleOracleRequest pay now oracle cfg req w)) =
             VerifyPermissions (the_descriptor cfg) token 1 # rest"
  using assms
  by (auto simp: handleOracleRequest_def the_descriptor_def Let_def is_oracle_event_def
      split: option.splits if_splits body.splits outcome.splits bool.splits prod.splits sum.splits)

lemma settle_at_most_once:
  "length (filter is_settle (snd (snd (handleOracleRequest pay now oracle cfg req w)))) \<le> 1"
  by (auto simp: handleOracleRequest_def Let_def is_settle_def no_settle_in_adapter
      split: option.splits if_splits body.splits outcome.splits bool.splits prod.splits sum.splits)

lemma sports_route_eq:
  "sports_route pay now env (planId sports_config) (agentId sports_config) req =
     handleOracleRequest pay now (sports_oracle env) sports_config req ()"
  by (simp add: sports_route_def sports_config_def)

lemma plain_example_calls:
  "snd (plain_askOracle example_env lakers_question) =
     [sports_get (SearchTeams (Some ''Lakers'')), sports_get (EventsLast (Some ''134867''))]"
  by (simp add: sports_eval sports_parse_eval char_classes)

text \<open>
  Claim C3, as amended. A request without a usable token is answered 402 with the plan,
  the agent, the price and the purchase URL. A request with a token and a body that holds
  a question, whose verification does not return valid (the service says invalid, or the
  call throws), is answered 401 with the purchase URL. A request with a token and a body
  that is not JSON, or that is a JSON value other than null and holds no question, is
  answered 400 before the token is verified. In all three the oracle is not invoked and
  its state is untouched. For every request, whatever its body, whenever the oracle or
  its adapter appears among the calls, \<open>verifyPermissions\<close> has returned valid and is
  the first call.
\<close>

theorem payment_gate:
  "(\<not> truthy (x402Token req) \<longrightarrow>
      (\<exists>b. handleOracleRequest pay now ask cfg req w = (Inr (402, ErrorJSON b), w, []) \<and>
           eb_error b = ''payment_required'' \<and> eb_planId b = planId cfg \<and>
           eb_agentId b = agentId cfg \<and> pricePerQuery b = Some ''$0.05'' \<and>
           purchaseUrl b = Some (purchase_url (agentId cfg)))) \<and>
   (x402Token req = Some token \<and> token \<noteq> [] \<and> req_body req = Body (Some q) \<and>
    truthy_value (Some q) \<and>
    verifyPermissions pay (the_descriptor cfg) token 1 \<noteq> Returns True \<longrightarrow>
      (\<exists>b. handleOracleRequest pay now ask cfg req w =
             (Inr (401, ErrorJSON b), w, [VerifyPermissions (the_descriptor cfg) token 1]) \<and>
           purchaseUrl b = Some (purchase_url (agentId cfg)) \<and>
           eb_error b = (case verifyPermissions pay (the_descriptor cfg) token 1 of
                           Throws _ \<Rightarrow> ''verification_failed''
                         | Returns _ \<Rightarrow> ''insufficient_credits''))) \<and>
   (truthy (x402Token req) \<and>
    (req_body req = InvalidJSON \<or> (\<exists>b. req_body req = Body b \<and> \<not> truthy_value b)) \<longrightarrow>
      (\<exists>b. handleOracleRequest pay now ask cfg req w = (Inr (400, ErrorJSON b), w, []) \<and>
           purchaseUrl b = None)) \<and>
   (filter is_oracle_event (snd (snd (handleOracleRequest pay now ask cfg req w))) \<noteq> [] \<longrightarrow>
      (\<exists>token rest. x402Token req = Some token \<and>
           verifyPermissions pay (the_descriptor cfg) token 1 = Returns True \<and>
           snd (snd (handleOracleRequest pay now ask cfg req w)) =
             VerifyPermissions (the_descriptor cfg) token 1 # rest))"
proof (intro conjI impI)
  assume "\<not> truthy (x402Token req)"
  then show "\<exists>b. handleOracleRequest pay now ask cfg req w = (Inr (402, ErrorJSON b), w, []) \<and>
           eb_error b = ''payment_required'' \<and> eb_planId b = planId cfg \<and>
           eb_agentId b = agentId cfg \<and> pricePerQuery b = Some ''$0.05'' \<and>
           purchaseUrl b = Some (purchase_url (agentId cfg))"
    by (rule handler_no_token)
next
  assume "x402Token req = Some token \<and> token \<noteq> [] \<and> req_body req = Body (Some q) \<and>
    truthy_value (Some q) \<and>
    verifyPermissions pay (the_descriptor cfg) token 1 \<noteq> Returns True"
  then show "\<exists>b. handleOracleRequest pay now ask cfg req w =
             (Inr (401, ErrorJSON b), w, [VerifyPermissions (the_descriptor cfg) token 1]) \<and>
           purchaseUrl b = Some (purchase_url (agentId cfg)) \<and>
           eb_error b = (case verifyPermissions pay (the_descriptor cfg) token 1 of
                           Throws _ \<Rightarrow> ''verification_failed''
                         | Returns _ \<Rightarrow> ''insufficient_credits'')"
    using handler_not_verified [of req token q pay cfg now ask w] by blast
next
  assume "truthy (x402Token req) \<and>
    (req_body req = InvalidJSON \<or> (\<exists>b. req_body req = Body b \<and> \<not> truthy_value b))"
  then show "\<exists>b. handleOracleRequest pay now ask cfg req w = (Inr (400, ErrorJSON b), w, []) \<and>
           purchaseUrl b = None"
    using handler_bad_body [of req pay now ask cfg w] by blast
next
  assume "filter is_oracle_event (snd (snd (handleOracleRequest pay now ask cfg req w))) \<noteq> []"
  then show "\<exists>token rest. x402Token req = Some token \<and>
           verifyPermissions pay (the_descriptor cfg) token 1 = Returns True \<and>
           snd (snd (handleOracleRequest pay now ask cfg req w)) =
             VerifyPermissions (the_descriptor cfg) token 1 # rest"
    by (rule oracle_needs_verification)
qed

lemma example_tokens:
  "x402Token (request_with None b) = None"
  "t \<noteq> [] \<Longrightarrow> x402Token (request_with (Some t) b) = Some t"
  "verifyPermissions example_payments d ''good-token'' n = Returns True"
  "verifyPermissions example_payments d ''stolen-token'' n = Returns False"
  "verifyPermissions example_payments d ''offline-token'' n = Throws ''connect ECONNREFUSED''"
  "settlePermissions example_payments d t n = Throws ''settlement service unavailable''"
  "req_body (request_with k b) = b"
  by (simp_all add: x402Token_def request_with_def truthy_def example_payments_def)

lemma plain_example_verified:
  "\<exists>r. plain_askOracle example_env lakers_question =
         (Inr r, [sports_get (SearchTeams (Some ''Lakers'')),
                  sports_get (EventsLast (Some ''134867''))]) \<and>
       verified r \<and> confidence r = 0.75"
  by (simp add: sports_eval sports_parse_eval char_classes)

lemma lakers_question_nonempty:
  "truthy_value (Some (Str lakers_question))" "printable (Str lakers_question)"
  by (simp_all add: lakers_question_def truthy_value_def printable_def)

lemma sports_oracle_string:
  "sports_oracle env (Str q) w = (case plain_askOracle env q of (r, evs) \<Rightarrow> (r, w, evs))"
  by (simp add: sports_oracle_def)

lemma paid_example:
  "\<exists>r. verified r \<and> confidence r = 0.75 \<and>
     plain_askOracle example_env lakers_question =
       (Inr r, [sports_get (SearchTeams (Some ''Lakers'')),
                sports_get (EventsLast (Some ''134867''))]) \<and>
     handleOracleRequest example_payments example_now (sports_oracle example_env) sports_config
       (request_with (Some ''good-token'') (Body (Some (Str lakers_question)))) () =
     (Inr (200, ResultJSON (r\<lparr> payment := Some \<lparr> creditsUsed = 0, txHash = None,
          pay_timestamp = None, pay_error = Some ''settlement_failed'',
          pay_message = Some ''settlement service unavailable'' \<rparr> \<rparr>)), (),
      [VerifyPermissions (the_descriptor sports_config) ''good-token'' 1,
       AskOracle (Str lakers_question),
       Adapter (sports_get (SearchTeams (Some ''Lakers''))),
       Adapter (sports_get (EventsLast (Some ''134867''))),
       SettlePermissions (the_descriptor sports_config) ''good-token'' 1])"
proof -
  obtain r where r: "plain_askOracle example_env lakers_question =
         (Inr r, [sports_get (SearchTeams (Some ''Lakers'')),
                  sports_get (EventsLast (Some ''134867''))])"
    and v: "verified r" "confidence r = 0.75"
    using plain_example_verified by blast
  have "handleOracleRequest example_payments example_now (sports_oracle example_env) sports_config
       (request_with (Some ''good-token'') (Body (Some (Str lakers_question)))) () =
     (Inr (200, ResultJSON (r\<lparr> payment := Some \<lparr> creditsUsed = 0, txHash = None,
          pay_timestamp = None, pay_error = Some ''settlement_failed'',
          pay_message = Some ''settlement service unavailable'' \<rparr> \<rparr>)), (),
      [VerifyPermissions (the_descriptor sports_config) ''good-token'' 1,
       AskOracle (Str lakers_question),
       Adapter (sports_get (SearchTeams (Some ''Lakers''))),
       Adapter (sports_get (EventsLast (Some ''134867''))),
       SettlePermissions (the_descriptor sports_config) ''good-token'' 1])"
    by (subst handler_verified [where token = "''good-token''" and q = "Str lakers_question"])
      (simp_all add: example_tokens lakers_question_nonempty sports_oracle_string r)
  with r v show ?thesis by blast
qed

theorem payment_gate_witness:
  "\<not> truthy (x402Token (request_with None (Body (Some (Str lakers_question))))) \<and>
   (\<exists>b. sports_route example_payments example_now example_env
          (planId sports_config) (agentId sports_config)
          (request_with None (Body (Some (Str lakers_question)))) = (Inr (402, ErrorJSON b), (), []) \<and>
        eb_error b = ''payment_required'' \<and> eb_planId b = planId sports_config \<and>
        eb_agentId b = agentId sports_config \<and> pricePerQuery b = Some ''$0.05'' \<and>
        purchaseUrl b = Some (purchase_url (agentId sports_config))) \<and>
   (\<exists>b. sports_route example_payments example_now example_env
          (planId sports_config) (agentId sports_config)
          (request_with (Some ''stolen-token'') (Body (Some (Str lakers_question)))) =
          (Inr (401, ErrorJSON b), (),
           [VerifyPermissions (the_descriptor sports_config) ''stolen-token'' 1]) \<and>
        purchaseUrl b = Some (purchase_url (agentId sports_config)) \<and>
        eb_error b = ''insufficient_credits'') \<and>
   (\<exists>b. sports_route example_payments example_now example_env
          (planId sports_config) (agentId sports_config)
          (request_with (Some ''offline-token'') (Body (Some (Str lakers_question)))) =
          (Inr (401, ErrorJSON b), (),
           [VerifyPermissions (the_descriptor sports_config) ''offline-token'' 1]) \<and>
        purchaseUrl b = Some (purchase_url (agentId sports_config)) \<and>
        eb_error b = ''verification_failed'') \<and>
   (\<exists>b. sports_route example_payments example_now example_env
          (planId sports_config) (agentId sports_config)
          (request_with (Some ''good-token'') InvalidJSON) = (Inr (400, ErrorJSON b), (), []) \<and>
        purchaseUrl b = None) \<and>
   (\<exists>token rest.
        x402Token (request_with (Some ''good-token'') (Body (Some (Str lakers_question)))) = Some token \<and>
        verifyPermissions example_payments (the_descriptor sports_config) token 1 = Returns True \<and>
        snd (snd (sports_route example_payments example_now example_env
          (planId sports_config) (agentId sports_config)
          (request_with (Some ''good-token'') (Body (Some (Str lakers_question)))))) =
          VerifyPermissions (the_descriptor sports_config) token 1 # rest)"
proof -
  note g = payment_gate [where pay = example_payments and now = example_now
      and ask = "sports_oracle example_env" and cfg = sports_config and w = "()"
      and q = "Str lakers_question"]
  have none: "\<not> truthy (x402Token (request_with None (Body (Some (Str lakers_question)))))"
    by (simp add: example_tokens truthy_def)
  have some: "truthy (x402Token (request_with (Some ''good-token'') InvalidJSON))"
    by (simp add: example_tokens truthy_def)
  have c1: "\<exists>b. handleOracleRequest example_payments example_now (sports_oracle example_env)
          sports_config (request_with None (Body (Some (Str lakers_question)))) () =
          (Inr (402, ErrorJSON b), (), []) \<and>
        eb_error b = ''payment_required'' \<and> eb_planId b = planId sports_config \<and>
        eb_agentId b = agentId sports_config \<and> pricePerQuery b = Some ''$0.05'' \<and>
        purchaseUrl b = Some (purchase_url (agentId sports_config))"
    by (rule g [THEN conjunct1, THEN mp, OF none])
  have c2: "\<exists>b. handleOracleRequest example_payments example_now (sports_oracle example_env)
          sports_config (request_with (Some ''stolen-token'') (Body (Some (Str lakers_question)))) () =
          (Inr (401, ErrorJSON b), (),
           [VerifyPermissions (the_descriptor sports_config) ''stolen-token'' 1]) \<and>
        purchaseUrl b = Some (purchase_url (agentId sports_config)) \<and>
        eb_error b = ''insufficient_credits''"
    using g [where req = "request_with (Some ''stolen-token'') (Body (Some (Str lakers_question)))"
        and token = "''stolen-token''", THEN conjunct2, THEN conjunct1]
    by (simp add: example_tokens lakers_question_nonempty)
  have c3: "\<exists>b. handleOracleRequest example_payments example_now (sports_oracle example_env)
          sports_config (request_with (Some ''offline-token'') (Body (Some (Str lakers_question)))) () =
          (Inr (401, ErrorJSON b), (),
           [VerifyPermissions (the_descriptor sports_config) ''offline-token'' 1]) \<and>
        purchaseUrl b = Some (purchase_url (agentId sports_config)) \<and>
        eb_error b = ''verification_failed''"
    using g [where req = "request_with (Some ''offline-token'') (Body (Some (Str lakers_question)))"
        and token = "''offline-token''", THEN conjunct2, THEN conjunct1]
    by (simp add: example_tokens lakers_question_nonempty)
  have c4: "\<exists>b. handleOracleRequest example_payments example_now (sports_oracle example_env)
          sports_config (request_with (Some ''good-token'') InvalidJSON) () =
          (Inr (400, ErrorJSON b), (), []) \<and> purchaseUrl b = None"
    using g [where req = "request_with (Some ''good-token'') InvalidJSON",
        THEN conjunct2, THEN conjunct2, THEN conjunct1] some
    by (simp add: example_tokens)
  have used: "filter is_oracle_event (snd (snd (handleOracleRequest example_payments example_now
      (sports_oracle example_env) sports_config
      (request_with (Some ''good-token'') (Body (Some (Str lakers_question)))) ()))) \<noteq> []"
    using paid_example by (auto simp: is_oracle_event_def)
  have c5: "\<exists>token rest.
        x402Token (request_with (Some ''good-token'') (Body (Some (Str lakers_question)))) = Some token \<and>
        verifyPermissions example_payments (the_descriptor sports_config) token 1 = Returns True \<and>
        snd (snd (handleOracleRequest example_payments example_now (sports_oracle example_env)
          sports_config (request_with (Some ''good-token'') (Body (Some (Str lakers_question)))) ())) =
          VerifyPermissions (the_descriptor sports_config) token 1 # rest"
    by (rule g [THEN conjunct2, THEN conjunct2, THEN conjunct2, THEN mp, OF used])
  show ?thesis
    unfolding sports_route_eq by (intro conjI none c1 c2 c3 c4 c5)
qed

text \<open>
  The claim as it stands answers every request that carries an invalid credential with
  401. A request with a token the payment service would refuse and a body that is not
  JSON is answered 400 \<open>invalid_json\<close>: the body is parsed before the token is verified.
\<close>

theorem payment_gate_counterexample:
  "x402Token (request_with (Some ''stolen-token'') InvalidJSON) = Some ''stolen-token'' \<and>
   verifyPermissions example_payments (the_descriptor sports_config) ''stolen-token'' 1 =
     Returns False \<and>
   sports_route example_payments example_now example_env
     (planId sports_config) (agentId sports_config)
     (request_with (Some ''stolen-token'') InvalidJSON) =
     (Inr (400, ErrorJSON (error_blank\<lparr> eb_error := ''invalid_json'',
         eb_message := ''Request body must be valid JSON'' \<rparr>)), (), [])"
  by (simp add: example_tokens sports_route_eq handleOracleRequest_def truthy_def)

text \<open>
  Claim C4. When the token is verified and the oracle has returned a result, a
  settlement that throws leaves the result as it is but for the attached field
  \<open>payment\<close>, which carries \<open>error: 'settlement_failed'\<close> and the message; the answer is
  200, and the calls are one verification, the oracle with its adapter calls, and one
  settlement. No request settles more than once.
\<close>

theorem settlement_failure_keeps_result:
  "(x402Token req = Some token \<and> token \<noteq> [] \<and> req_body req = Body (Some q) \<and>
    truthy_value (Some q) \<and> printable q \<and>
    verifyPermissions pay (the_descriptor cfg) token 1 = Returns True \<and>
    ask q w = (Inr r, w', evs) \<and>
    settlePermissions pay (the_descriptor cfg) token 1 = Throws m \<longrightarrow>
      handleOracleRequest pay now ask cfg req w =
        (Inr (200, ResultJSON (r\<lparr> payment := Some \<lparr> creditsUsed = 0, txHash = None,
             pay_timestamp = None, pay_error = Some ''settlement_failed'',
             pay_message = Some m \<rparr> \<rparr>)), w',
         VerifyPermissions (the_descriptor cfg) token 1 # AskOracle q # map Adapter evs @
           [SettlePermissions (the_descriptor cfg) token 1])) \<and>
   length (filter is_settle (snd (snd (handleOracleRequest pay now ask cfg req w)))) \<le> 1"
proof (intro conjI impI)
  assume a: "x402Token req = Some token \<and> token \<noteq> [] \<and> req_body req = Body (Some q) \<and>
    truthy_value (Some q) \<and> printable q \<and>
    verifyPermissions pay (the_descriptor cfg) token 1 = Returns True \<and>
    ask q w = (Inr r, w', evs) \<and>
    settlePermissions pay (the_descriptor cfg) token 1 = Throws m"
  then have "handleOracleRequest pay now ask cfg req w =
     (case ask q w of
        (Inl m, w', evs) \<Rightarrow>
          (Inr (500, ErrorJSON (error_blank\<lparr> eb_error := ''oracle_error'',
              eb_message := ''Failed to process query'', details := Some m \<rparr>)), w',
           VerifyPermissions (the_descriptor cfg) token 1 # AskOracle q # map Adapter evs)
      | (Inr r, w', evs) \<Rightarrow>
          (Inr (200, ResultJSON
             (case settlePermissions pay (the_descriptor cfg) token 1 of
                Returns tx \<Rightarrow>
                  r\<lparr> payment := Some \<lparr> creditsUsed = 1, txHash = tx,
                    pay_timestamp = Some (toISOString now), pay_error = None, pay_message = None \<rparr> \<rparr>
              | Throws m \<Rightarrow>
                  r\<lparr> payment := Some \<lparr> creditsUsed = 0, txHash = None, pay_timestamp = None,
                    pay_error = Some ''settlement_failed'', pay_message = Some m \<rparr> \<rparr>)), w',
           VerifyPermissions (the_descriptor cfg) token 1 # AskOracle q # map Adapter evs @
             [SettlePermissions (the_descriptor cfg) token 1]))"
    by (intro handler_verified) simp_all
  with a show "handleOracleRequest pay now ask cfg req w =
        (Inr (200, ResultJSON (r\<lparr> payment := Some \<lparr> creditsUsed = 0, txHash = None,
             pay_timestamp = None, pay_error = Some ''settlement_failed'',
             pay_message = Some m \<rparr> \<rparr>)), w',
         VerifyPermissions (the_descriptor cfg) token 1 # AskOracle q # map Adapter evs @
           [SettlePermissions (the_descriptor cfg) token 1])"
    by simp
next
  show "length (filter is_settle (snd (snd (handleOracleRequest pay now ask cfg req w)))) \<le> 1"
    by (rule settle_at_most_once)
qed

theorem settlement_failure_keeps_result_witness:
  "\<exists>r. verified r \<and> confidence r = 0.75 \<and>
     plain_askOracle example_env lakers_question =
       (Inr r, [sports_get (SearchTeams (Some ''Lakers'')),
                sports_get (EventsLast (Some ''134867''))]) \<and>
     sports_route example_payments example_now example_env
       (planId sports_config) (agentId sports_config)
       (request_with (Some ''good-token'') (Body (Some (Str lakers_question)))) =
     (Inr (200, ResultJSON (r\<lparr> payment := Some \<lparr> creditsUsed = 0, txHash = None,
          pay_timestamp = None, pay_error = Some ''settlement_failed'',
          pay_message = Some ''settlement service unavailable'' \<rparr> \<rparr>)), (),
      VerifyPermissions (the_descriptor sports_config) ''good-token'' 1 #
      AskOracle (Str lakers_question) #
      map Adapter [sports_get (SearchTeams (Some ''Lakers'')),
                   sports_get (EventsLast (Some ''134867''))] @
      [SettlePermissions (the_descriptor sports_config) ''good-token'' 1])"
proof -
  obtain r where r: "plain_askOracle example_env lakers_question =
         (Inr r, [sports_get (SearchTeams (Some ''Lakers'')),
                  sports_get (EventsLast (Some ''134867''))])"
    and v: "verified r" "confidence r = 0.75"
    using plain_example_verified by blast
  have o: "sports_oracle example_env (Str lakers_question) () =
      (Inr r, (), [sports_get (SearchTeams (Some ''Lakers'')),
                   sports_get (EventsLast (Some ''134867''))])"
    by (simp add: sports_oracle_def r)
  have "handleOracleRequest example_payments example_now (sports_oracle example_env) sports_config
       (request_with (Some ''good-token'') (Body (Some (Str lakers_question)))) () =
     (Inr (200, ResultJSON (r\<lparr> payment := Some \<lparr> creditsUsed = 0, txHash = None,
          pay_timestamp = None, pay_error = Some ''settlement_failed'',
          pay_message = Some ''settlement service unavailable'' \<rparr> \<rparr>)), (),
      VerifyPermissions (the_descriptor sports_config) ''good-token'' 1 #
      AskOracle (Str lakers_question) #
      map Adapter [sports_get (SearchTeams (Some ''Lakers'')),
                   sports_get (EventsLast (Some ''134867''))] @
      [SettlePermissions (the_descriptor sports_config) ''good-token'' 1])"
    by (rule settlement_failure_keeps_result [where token = "''good-token''"
          and q = "Str lakers_question" and m = "''settlement service unavailable''",
          THEN conjunct1, THEN mp])
      (simp add: example_tokens lakers_question_nonempty o)
  with r v show ?thesis
    unfolding sports_route_eq by blast
qed

section \<open>The source adapters' outbound calls\<close>

lemma querySportsDB_calls:
  "snd (querySportsDB db t d) = [sports_get (SearchTeams t)] \<or>
   (\<exists>i. snd (querySportsDB db t d) = [sports_get (SearchTeams t), sports_get (EventsLast i)])"
  by (auto simp: querySportsDB_def Let_def split: reply.splits option.splits list.splits)

lemma sports_adapter_unpaced:
  "sleeps (snd (querySportsDB db t d)) = [] \<and>
   list_all (\<lambda>r. timeout r = None) (requests (snd (querySportsDB db t d)))"
  using querySportsDB_calls [of db t d]
  by (auto simp: sleeps_def requests_def sports_get_def)

lemma enforceRateLimit_paces:
  "lastRequestTime + requestDelayMs \<le> fst (enforceRateLimit now lag lastRequestTime) \<and>
   now \<le> fst (enforceRateLimit now lag lastRequestTime)"
  by (simp add: enforceRateLimit_def Let_def requestDelayMs_def)

lemma reddit_adapter_timeouts:
  "list_all (\<lambda>r. timeout r = Some 10000 \<and> userAgent r = Some USER_AGENT)
     (requests (snd (snd (fetchSubreddit a now lag t0 sub sorting cnt))))"
  "list_all (\<lambda>r. timeout r = Some 10000 \<and> userAgent r = Some USER_AGENT)
     (requests (snd (snd (fetchPost a now lag t0 sub pid))))"
  "list_all (\<lambda>r. timeout r = Some 10000 \<and> userAgent r = Some USER_AGENT)
     (requests (snd (snd (searchSubreddit a now lag t0 sub kw cnt))))"
  by (simp_all add: fetchSubreddit_def fetchPost_def searchSubreddit_def enforceRateLimit_def
      Let_def requests_def reddit_get_def split: prod.splits)

lemma sports_example_calls:
  "snd (snd (sports_askOracle example_env None lakers_question)) =
     [sports_get (SearchTeams (Some ''Los Angeles Lakers'')),
      sports_get (EventsLast (Some ''134867''))]"
  by (simp add: sports_eval sports_parse_eval char_classes)

lemma reddit_example_calls:
  "snd (snd (reddit_askOracle example_reddit_env example_world wsb_question)) =
     [Sleep 1500, reddit_get (Listing ''wallstreetbets'' (Some HOT) 10)]"
  by (simp add: reddit_eval reddit_parse_eval char_classes)

text \<open>
  Claim C7, evaluated where it fails. For the question about the Lakers game the sports
  adapter makes its two calls with no timeout in the configuration, in the module that
  \<open>server.mjs\<close> loads and in the module with the safety rails alike; the reddit adapter's
  call for the question about r/wallstreetbets carries the timeout of 10000 ms.
\<close>

theorem sports_calls_have_no_timeout:
  "map timeout (requests (snd (plain_askOracle example_env lakers_question))) = [None, None] \<and>
   map timeout (requests (snd (snd (sports_askOracle example_env None lakers_question)))) =
     [None, None] \<and>
   map timeout (requests (snd (snd (reddit_askOracle example_reddit_env example_world
     wsb_question)))) = [Some 10000]"
  by (simp add: plain_example_calls sports_example_calls reddit_example_calls requests_def
      sports_get_def reddit_get_def)

text \<open>
  Claim C8, evaluated where it fails. For the question about the Lakers game the sports
  module issues its two outbound calls one behind the other with no delay before or
  between them, and it keeps no time of the last call; the reddit module, asked 500 ms
  after its last call, first sleeps the missing 1500 ms.
\<close>

theorem sports_calls_are_not_paced:
  "snd (snd (sports_askOracle example_env None lakers_question)) =
     [Get \<lparr> url = SearchTeams (Some ''Los Angeles Lakers''), userAgent = None, timeout = None \<rparr>,
      Get \<lparr> url = EventsLast (Some ''134867''), userAgent = None, timeout = None \<rparr>] \<and>
   sleeps (snd (snd (sports_askOracle example_env None lakers_question))) = [] \<and>
   sleeps (snd (snd (reddit_askOracle example_reddit_env example_world wsb_question))) = [1500]"
  by (simp add: sports_example_calls reddit_example_calls sleeps_def sports_get_def reddit_get_def)

section \<open>The question parsers\<close>

lemma team_at_needs_capital: "\<not> upperAZ c \<Longrightarrow> team_at prev (c # cs) = None"
  by (simp add: team_at_def Let_def)

lemma exec_all_without_capitals:
  "list_all (\<lambda>c. \<not> upperAZ c) q \<Longrightarrow> exec_all prev skip q = []"
  by (induction q arbitrary: prev skip) (simp_all add: team_at_needs_capital)

lemma querySportsDB_first_call:
  "\<exists>rest. snd (querySportsDB db t d) = sports_get (SearchTeams t) # rest"
  using querySportsDB_calls [of db t d] by auto

lemma lakers_parse:
  "sports_parseQuestion eng now ''Who won the Lakers game on 2026-01-19?'' =
     \<lparr> team = Some ''Lakers'', opponent = None, date = ''2026-01-19'',
       originalQuestion = ''Who won the Lakers game on 2026-01-19?'' \<rparr>"
  by (simp add: sports_parse_eval char_classes Let_def)

lemma lakers_normalized: "normalizeTeamName ''Lakers'' = ''Los Angeles Lakers''"
  by (simp add: normalizeTeamName_def TEAM_ALIASES_def char_classes)

lemma lakers_first_call:
  "\<exists>rest. snd (snd (sports_askOracle env None ''Who won the Lakers game on 2026-01-19?'')) =
     sports_get (SearchTeams (Some ''Los Angeles Lakers'')) # rest"
proof -
  let ?p = "\<lparr> team = Some ''Los Angeles Lakers'', opponent = None, date = ''2026-01-19'',
       originalQuestion = ''Who won the Lakers game on 2026-01-19?'' \<rparr>"
  have calls: "snd (verifyResult (provider env) (now1 env) ?p) =
      snd (querySportsDB (provider env) (Some ''Los Angeles Lakers'') ''2026-01-19'')"
    by (simp add: verifyResult_def opponentMatch_def split: prod.splits)
  have "snd (snd (sports_askOracle env None ''Who won the Lakers game on 2026-01-19?'')) =
      snd (verifyResult (provider env) (now1 env) ?p)"
    by (simp add: sports_askOracle_whole sports_check_file(1) lakers_parse lakers_normalized
        Let_def truthy_def split: prod.splits sum.splits)
  then show ?thesis
    by (simp add: calls querySportsDB_first_call)
qed

lemma wsb_parse:
  "reddit_parseQuestion wsb_question =
     \<lparr> qtype = Some HOT, subreddit = Some ''wallstreetbets'', postId = None, keyword = None,
       limit = 10, question = wsb_question \<rparr>"
  by (simp add: reddit_parse_eval char_classes)

text \<open>
  Claim C9. The sports parser turns "Who won the Lakers game on 2026-01-19?" into the
  team "Lakers" and the date "2026-01-19", whatever the clock and the engine's date
  heuristics; \<open>normalizeTeamName\<close> maps "Lakers" to "Los Angeles Lakers", and that is the
  name \<open>askOracle\<close> sends to the provider. The reddit parser turns "What's hot on
  r/wallstreetbets?" into the subreddit "wallstreetbets" and the type hot.
\<close>

theorem parse_examples:
  "sports_parseQuestion eng now ''Who won the Lakers game on 2026-01-19?'' =
     \<lparr> team = Some ''Lakers'', opponent = None, date = ''2026-01-19'',
       originalQuestion = ''Who won the Lakers game on 2026-01-19?'' \<rparr> \<and>
   normalizeTeamName ''Lakers'' = ''Los Angeles Lakers'' \<and>
   (\<exists>rest. snd (snd (sports_askOracle env None ''Who won the Lakers game on 2026-01-19?'')) =
      sports_get (SearchTeams (Some ''Los Angeles Lakers'')) # rest) \<and>
   wsb_question = ''What'' @ [CHR 0x27] @ ''s hot on r/wallstreetbets?'' \<and>
   subreddit (reddit_parseQuestion wsb_question) = Some ''wallstreetbets'' \<and>
   qtype (reddit_parseQuestion wsb_question) = Some HOT"
  by (simp add: lakers_parse lakers_normalized lakers_first_call wsb_parse)
    (simp add: wsb_question_def)

lemma sports_fields:
  "team (sports_parseQuestion eng now q) = (case extract_teams q of [] \<Rightarrow> None | t # _ \<Rightarrow> Some t)"
  "opponent (sports_parseQuestion eng now q) =
     (case extract_teams q of _ # t # _ \<Rightarrow> Some t | _ \<Rightarrow> None)"
  "extract_date eng now q = None \<Longrightarrow>
     date (sports_parseQuestion eng now q) = split_T_0 (toISOString now)"
  by (simp_all add: sports_parseQuestion_def Let_def)

lemma reddit_fields:
  "subreddit (reddit_parseQuestion q) = first_some (\<lambda>p. p q) subredditPatterns"
  "postId (reddit_parseQuestion q) = snd (snd (detect_type q))"
  "keyword (reddit_parseQuestion q) = fst (snd (detect_type q))"
  "qtype (reddit_parseQuestion q) = Some (fst (detect_type q))"
  by (simp_all add: reddit_parseQuestion_def split: prod.splits)

lemma detect_type_postId:
  "fst (detect_type q) \<noteq> POST \<or> (search url_pattern q = None \<and> search_b id_pattern None q = None)
   \<Longrightarrow> snd (snd (detect_type q)) = None"
  by (auto simp: detect_type_def Let_def)

lemma detect_type_keyword:
  "fst (detect_type q) \<noteq> SEARCH \<or> search search_pattern q = None
   \<Longrightarrow> fst (snd (detect_type q)) = None"
  by (auto simp: detect_type_def Let_def)

text \<open>
  Claim C6, as amended. Both parsers are total functions of the question. The sports
  parser leaves \<open>team\<close> null when the question has no team candidate (in particular when
  it has no capital letter) and \<open>opponent\<close> null when it has fewer than two; when no date
  pattern matches, \<open>date\<close> is not null but the current date, the part of
  \<open>new Date().toISOString()\<close> before the letter T. The reddit parser leaves
  \<open>subreddit\<close> null when no subreddit pattern matches, \<open>postId\<close> null unless the type is
  post and the URL or the id pattern matches, and \<open>keyword\<close> null unless the type is
  search and the search pattern matches.
\<close>

theorem parse_unresolved_fields:
  "(extract_teams q = [] \<longrightarrow>
      team (sports_parseQuestion eng now q) = None \<and>
      opponent (sports_parseQuestion eng now q) = None) \<and>
   (length (extract_teams q) \<le> 1 \<longrightarrow> opponent (sports_parseQuestion eng now q) = None) \<and>
   (list_all (\<lambda>c. \<not> upperAZ c) q \<longrightarrow> extract_teams q = []) \<and>
   (first_some (\<lambda>p. p q) datePatterns = None \<longrightarrow>
      date (sports_parseQuestion eng now q) = split_T_0 (toISOString now)) \<and>
   originalQuestion (sports_parseQuestion eng now q) = q \<and>
   (first_some (\<lambda>p. p rq) subredditPatterns = None \<longrightarrow>
      subreddit (reddit_parseQuestion rq) = None) \<and>
   (qtype (reddit_parseQuestion rq) \<noteq> Some POST \<or>
    (search url_pattern rq = None \<and> search_b id_pattern None rq = None) \<longrightarrow>
      postId (reddit_parseQuestion rq) = None) \<and>
   (qtype (reddit_parseQuestion rq) \<noteq> Some SEARCH \<or> search search_pattern rq = None \<longrightarrow>
      keyword (reddit_parseQuestion rq) = None) \<and>
   question (reddit_parseQuestion rq) = rq"
proof (intro conjI impI)
  assume "extract_teams q = []"
  then show "team (sports_parseQuestion eng now q) = None"
    and "opponent (sports_parseQuestion eng now q) = None"
    by (simp_all add: sports_fields)
next
  assume "length (extract_teams q) \<le> 1"
  then show "opponent (sports_parseQuestion eng now q) = None"
    by (cases "extract_teams q"; cases "tl (extract_teams q)") (auto simp: sports_fields)
next
  assume "list_all (\<lambda>c. \<not> upperAZ c) q"
  then show "extract_teams q = []"
    by (simp add: extract_teams_def exec_all_without_capitals)
next
  assume "first_some (\<lambda>p. p q) datePatterns = None"
  then show "date (sports_parseQuestion eng now q) = split_T_0 (toISOString now)"
    by (simp add: sports_fields(3) extract_date_def)
next
  show "originalQuestion (sports_parseQuestion eng now q) = q"
    by (simp add: sports_parseQuestion_def Let_def)
next
  assume "first_some (\<lambda>p. p rq) subredditPatterns = None"
  then show "subreddit (reddit_parseQuestion rq) = None"
    by (simp add: reddit_fields)
next
  assume "qtype (reddit_parseQuestion rq) \<noteq> Some POST \<or>
    (search url_pattern rq = None \<and> search_b id_pattern None rq = None)"
  then show "postId (reddit_parseQuestion rq) = None"
    using detect_type_postId [of rq] by (simp add: reddit_fields)
next
  assume "qtype (reddit_parseQuestion rq) \<noteq> Some SEARCH \<or> search search_pattern rq = None"
  then show "keyword (reddit_parseQuestion rq) = None"
    using detect_type_keyword [of rq] by (simp add: reddit_fields)
next
  show "question (reddit_parseQuestion rq) = rq"
    by (simp add: reddit_parseQuestion_def split: prod.splits)
qed

lemma plain_question_facts:
  "extract_teams ''what happened?'' = []"
  "list_all (\<lambda>c. \<not> upperAZ c) ''what happened?''"
  "first_some (\<lambda>p. p ''what happened?'') datePatterns = None"
  "first_some (\<lambda>p. p ''what happened?'') subredditPatterns = None"
  "qtype (reddit_parseQuestion ''what happened?'') = Some HOT"
  "split_T_0 (toISOString example_now) = ''2026-11-03''"
  by (simp_all add: sports_parse_eval reddit_parse_eval date_pattern2_def date_pattern3_def
      split_T_0_def example_now_def char_classes Let_def)

theorem parse_unresolved_fields_witness:
  "list_all (\<lambda>c. \<not> upperAZ c) ''what happened?'' \<and>
   extract_teams ''what happened?'' = [] \<and>
   length (extract_teams ''what happened?'') \<le> 1 \<and>
   first_some (\<lambda>p. p ''what happened?'') datePatterns = None \<and>
   first_some (\<lambda>p. p ''what happened?'') subredditPatterns = None \<and>
   qtype (reddit_parseQuestion ''what happened?'') = Some HOT \<and>
   team (sports_parseQuestion (\<lambda>_. None) example_now ''what happened?'') = None \<and>
   opponent (sports_parseQuestion (\<lambda>_. None) example_now ''what happened?'') = None \<and>
   date (sports_parseQuestion (\<lambda>_. None) example_now ''what happened?'') =
     split_T_0 (toISOString example_now) \<and>
   subreddit (reddit_parseQuestion ''what happened?'') = None \<and>
   postId (reddit_parseQuestion ''what happened?'') = None \<and>
   keyword (reddit_parseQuestion ''what happened?'') = None"
proof -
  note t = parse_unresolved_fields [where q = "''what happened?''" and rq = "''what happened?''"
      and eng = "\<lambda>_. None" and now = example_now]
  have none: "extract_teams ''what happened?'' = []"
    by (rule t [THEN conjunct2, THEN conjunct2, THEN conjunct1, THEN mp,
          OF plain_question_facts(2)])
  have few: "length (extract_teams ''what happened?'') \<le> 1"
    by (simp add: none)
  have hot: "qtype (reddit_parseQuestion ''what happened?'') \<noteq> Some POST \<or>
      (search url_pattern ''what happened?'' = None \<and>
       search_b id_pattern None ''what happened?'' = None)"
    "qtype (reddit_parseQuestion ''what happened?'') \<noteq> Some SEARCH \<or>
       search search_pattern ''what happened?'' = None"
    by (simp_all add: plain_question_facts(5))
  show ?thesis
    by (intro conjI plain_question_facts(2-5) none few
        t [THEN conjunct1, THEN mp, OF none, THEN conjunct1]
        t [THEN conjunct2, THEN conjunct1, THEN mp, OF few]
        t [THEN conjunct2, THEN conjunct2, THEN conjunct2, THEN conjunct1, THEN mp,
           OF plain_question_facts(3)]
        t [THEN conjunct2, THEN conjunct2, THEN conjunct2, THEN conjunct2, THEN conjunct2,
           THEN conjunct1, THEN mp, OF plain_question_facts(4)]
        t [THEN conjunct2, THEN conjunct2, THEN conjunct2, THEN conjunct2, THEN conjunct2,
           THEN conjunct2, THEN conjunct1, THEN mp, OF hot(1)]
        t [THEN conjunct2, THEN conjunct2, THEN conjunct2, THEN conjunct2, THEN conjunct2,
           THEN conjunct2, THEN conjunct2, THEN conjunct1, THEN mp, OF hot(2)])
qed

text \<open>
  The claim as it stands leaves the sports \<open>date\<close> null when the question names no date.
  For "what happened?" no date pattern matches, and the parser returns the date of the
  day instead.
\<close>

theorem parse_date_counterexample:
  "first_some (\<lambda>p. p ''what happened?'') datePatterns = None \<and>
   date (sports_parseQuestion (\<lambda>_. None) example_now ''what happened?'') = ''2026-11-03''"
  by (simp add: plain_question_facts sports_fields(3) extract_date_def)

section \<open>A call in flight while the breaker trips\<close>

lemma four_failures_safe:
  "sports_checkSafetyLimits now (Some four_failures) = Safe"
  by (simp add: sports_checkSafetyLimits_def sports_loadStats_def four_failures_def Let_def
      sports_maxConsecutiveErrors_def sports_maxQueriesPerDay_def)

lemma lakers_start:
  "sports_checkSafetyLimits (now0 example_env) file = Safe \<Longrightarrow>
   sports_start example_env file lakers_question =
     (Awaiting \<lparr> team = Some ''Los Angeles Lakers'', opponent = None, date = ''2026-01-19'',
                 originalQuestion = lakers_question \<rparr>, file)"
  by (simp add: sports_start_def lakers_question_def lakers_parse lakers_normalized truthy_def)

lemma no_team_start:
  "sports_checkSafetyLimits (now0 example_env) file = Safe \<Longrightarrow>
   \<exists>r. sports_start example_env file ''what happened?'' =
         (Returned r, sports_logQuery example_now True file r) \<and> \<not> verified r"
  by (simp add: sports_start_def sports_fields plain_question_facts(1) truthy_def
      could_not_parse_team_def sports_blank_def example_env_def Let_def)

lemma lakers_finish:
  "\<exists>r calls. sports_finish example_env
       \<lparr> team = Some ''Los Angeles Lakers'', opponent = None, date = ''2026-01-19'',
         originalQuestion = lakers_question \<rparr> file =
       (Inr r, sports_logQuery example_now True file r, calls) \<and> verified r"
  by (simp add: sports_finish_def verifyResult_def querySportsDB_def opponentMatch_def
      parseInt10_def js_gt_def example_env_def example_db_def sports_blank_def truthy_def
      applyConfidenceFloor_def sports_minConfidenceFloor_def Let_def)

lemma fifth_failure_trips:
  "\<not> verified r \<Longrightarrow>
   \<exists>st. sports_logQuery example_now True (Some four_failures) r = Some st \<and>
        reason (sports_checkSafetyLimits now (Some st)) = Some ''circuit_breaker_tripped'' \<and>
        todayQueries st = 5 \<and> lastReset st = toDateString example_now"
  by (simp add: sports_logQuery_def saveStats_def sports_loadStats_def four_failures_def
      failed_entry_def example_now_def sports_tripped_iff Let_def)

text \<open>
  The claim as it stands lets no \<open>askOracle\<close> traffic record a success once the breaker
  is tripped. With four failures at the head of the log, a call about the Lakers game
  passes the pre-check and waits for the provider; a second call, which names no team,
  records the fifth failure and trips the breaker; then the first call completes, and
  \<open>logQuery\<close> puts its success at the head of the log: the next pre-check passes.
\<close>

theorem in_flight_success_counterexample:
  "is_safe (sports_checkSafetyLimits example_now (Some four_failures)) \<and>
   reason (sports_checkSafetyLimits example_now
     (fst (sports_schedule [Begin example_env lakers_question,
                            Begin example_env ''what happened?'']
            (Some four_failures, [])))) = Some ''circuit_breaker_tripped'' \<and>
   (\<exists>st e es. fst (sports_schedule [Begin example_env lakers_question,
                                    Begin example_env ''what happened?'', Complete 0]
                    (Some four_failures, [])) = Some st \<and>
       recentQueries st = e # es \<and> e_verified e) \<and>
   is_safe (sports_checkSafetyLimits example_now
     (fst (sports_schedule [Begin example_env lakers_question,
                            Begin example_env ''what happened?'', Complete 0]
            (Some four_failures, []))))"
proof -
  let ?p = "\<lparr> team = Some ''Los Angeles Lakers'', opponent = None, date = ''2026-01-19'',
              originalQuestion = lakers_question \<rparr>"
  have safe: "sports_checkSafetyLimits (now0 example_env) (Some four_failures) = Safe"
    by (rule four_failures_safe)
  note one = lakers_start [OF safe]
  obtain r2 where r2: "sports_start example_env (Some four_failures) ''what happened?'' =
      (Returned r2, sports_logQuery example_now True (Some four_failures) r2)"
    and failed: "\<not> verified r2"
    using no_team_start [OF safe] by blast
  obtain st2 where st2: "sports_logQuery example_now True (Some four_failures) r2 = Some st2"
    and tripped: "reason (sports_checkSafetyLimits example_now (Some st2)) =
      Some ''circuit_breaker_tripped''"
    and today: "todayQueries st2 = 5" "lastReset st2 = toDateString example_now"
    using fifth_failure_trips [OF failed, of example_now] by blast
  have two: "sports_schedule [Begin example_env lakers_question,
      Begin example_env ''what happened?''] (Some four_failures, []) =
      (Some st2, [(example_env, ?p)])"
    by (simp add: one r2 st2)
  obtain r3 calls where r3: "sports_finish example_env ?p (Some st2) =
      (Inr r3, sports_logQuery example_now True (Some st2) r3, calls)"
    and ok: "verified r3"
    using lakers_finish [of "Some st2"] by blast
  have three: "sports_schedule [Begin example_env lakers_question,
      Begin example_env ''what happened?'', Complete 0] (Some four_failures, []) =
      (sports_logQuery example_now True (Some st2) r3, [])"
    by (simp add: one r2 st2 r3)
  obtain st3 e es where st3: "sports_logQuery example_now True (Some st2) r3 = Some st3"
    and head: "recentQueries st3 = e # es" "e_verified e"
    using sports_logQuery_head [of example_now "Some st2" r3] ok by auto
  have passes: "is_safe (sports_checkSafetyLimits example_now
      (sports_logQuery example_now True (Some st2) r3))"
    by (simp add: sports_after_success(2) [OF ok] sports_loadStats_def today
        sports_maxQueriesPerDay_def)
  show ?thesis
    unfolding two three fst_conv
    using head passes tripped
    by (simp add: st3 four_failures_safe is_safe_def)
qed

end
